theory Spec2Isabelle
  imports Main "HOL-Library.Word" "HOL-Library.Signed_Division"
begin

unbundle bit_operations_syntax

section \<open>Go values shared by the tutorial programs\<close>

text \<open>
  A Go \<^verbatim>\<open>[]byte\<close> is a list of 8-bit words, a Go \<^verbatim>\<open>string\<close> a list of characters.
  A \<^verbatim>\<open>nil\<close> slice and an empty one are both \<open>[]\<close>. A Go \<^verbatim>\<open>error\<close> is a value of
  \<open>go_error\<close>; a run-time panic is a value of \<open>panic\<close>, and a function that can
  panic returns \<open>panic + 'a\<close>.
\<close>

type_synonym byte = "8 word"
type_synonym bytes = "byte list"

datatype go_error =
  EOF
  | ErrUnexpectedEOF
  | ReaderError string
  | MarshalerError string
  | Errorf string

datatype panic = Panic string

text \<open>\<^verbatim>\<open>strconv.Itoa\<close> and the \<^verbatim>\<open>%d\<close> verb: decimal digits, a minus sign first.\<close>

fun digits :: "nat \<Rightarrow> string" where
  "digits n =
     (if n < 10 then [''0123456789'' ! n]
      else digits (n div 10) @ [''0123456789'' ! (n mod 10)])"

declare digits.simps [simp del]

definition Itoa :: "int \<Rightarrow> string" where
  "Itoa i = (if i < 0 then CHR ''-'' # digits (nat (- i)) else digits (nat i))"

section \<open>Library functions the programs call\<close>

text \<open>
  The programs rest on Go's standard library. What the properties below need of it is
  written out (\<^verbatim>\<open>encoding/base64\<close>, the layout \<^verbatim>\<open>encoding/json\<close> gives a struct, the
  saturating \<^verbatim>\<open>time.Time.Sub\<close>, the year range of \<^verbatim>\<open>time.Time.MarshalJSON\<close>, the
  key-length panics of \<^verbatim>\<open>crypto/ed25519\<close>). The rest is a parameter \<open>lib\<close> of every
  function that uses it: the Ed25519 arithmetic and the two text formats of \<^verbatim>\<open>time\<close>.
\<close>

record golib =
  key_from_seed :: "bytes \<Rightarrow> bytes"
  sign_core :: "bytes \<Rightarrow> bytes \<Rightarrow> bytes"
  verify_core :: "bytes \<Rightarrow> bytes \<Rightarrow> bytes \<Rightarrow> bool"
  format_time :: "int \<Rightarrow> string"
  format_duration :: "int \<Rightarrow> string"

text \<open>
  What the library documents of Ed25519, as far as the programs use it:
  \<^verbatim>\<open>NewKeyFromSeed\<close> gives a 64-byte private key whose last 32 bytes are the public
  key, and a signature verifies under the public key of the private key that made it.
\<close>

definition ed25519_correct :: "golib \<Rightarrow> bool" where
  "ed25519_correct lib =
     (\<forall>seed. length seed = 32 \<longrightarrow>
        length (key_from_seed lib seed) = 64 \<and>
        (\<forall>msg. verify_core lib (drop 32 (key_from_seed lib seed)) msg
                 (sign_core lib (key_from_seed lib seed) msg)))"

text \<open>
  Nothing more is assumed of the library. Whether \<^verbatim>\<open>Verify\<close> rejects a signature under
  another key or over other bytes is left to the library: the properties below say which
  bytes, key and signature the code hands it, and what the code returns on its answer.
\<close>

text \<open>\<^verbatim>\<open>ed25519.Sign\<close> and \<^verbatim>\<open>ed25519.Verify\<close> panic on a key of the wrong length.\<close>

definition ed25519_Sign :: "golib \<Rightarrow> bytes \<Rightarrow> bytes \<Rightarrow> panic + bytes" where
  "ed25519_Sign lib privateKey message =
     (if length privateKey \<noteq> 64
      then Inl (Panic (''ed25519: bad private key length: '' @ Itoa (int (length privateKey))))
      else Inr (sign_core lib privateKey message))"

definition ed25519_Verify :: "golib \<Rightarrow> bytes \<Rightarrow> bytes \<Rightarrow> bytes \<Rightarrow> panic + bool" where
  "ed25519_Verify lib publicKey message sig =
     (if length publicKey \<noteq> 32
      then Inl (Panic (''ed25519: bad public key length: '' @ Itoa (int (length publicKey))))
      else Inr (verify_core lib publicKey message sig))"

text \<open>
  A reader is what one read of it delivers: an error, or the bytes available.
  \<^verbatim>\<open>io.ReadFull\<close> asks for exactly \<open>n\<close> of them.
\<close>

definition io_ReadFull :: "go_error + bytes \<Rightarrow> nat \<Rightarrow> go_error + bytes" where
  "io_ReadFull src n =
     (case src of
        Inl err \<Rightarrow> Inl err
      | Inr bs \<Rightarrow>
          if n \<le> length bs then Inr (take n bs)
          else if bs = [] then Inl EOF
          else Inl ErrUnexpectedEOF)"

text \<open>
  The world outside the program: the wall clock, read by \<^verbatim>\<open>time.Now\<close>, and the
  entropy source \<^verbatim>\<open>rand.Reader\<close>. \<open>clock w k\<close> is the \<open>k\<close>-th reading in nanoseconds
  since the Unix epoch, \<open>entropy w k\<close> what the \<open>k\<close>-th read delivers.
\<close>

type_synonym Time = int
type_synonym Duration = int

record world =
  clock :: "nat \<Rightarrow> Time"
  ticks :: nat
  entropy :: "nat \<Rightarrow> go_error + bytes"
  reads :: nat

definition time_Now :: "world \<Rightarrow> Time \<times> world" where
  "time_Now w = (clock w (ticks w), w\<lparr>ticks := Suc (ticks w)\<rparr>)"

definition rand_ReadFull :: "world \<Rightarrow> nat \<Rightarrow> (go_error + bytes) \<times> world" where
  "rand_ReadFull w n = (io_ReadFull (entropy w (reads w)) n, w\<lparr>reads := Suc (reads w)\<rparr>)"

text \<open>\<^verbatim>\<open>ed25519.GenerateKey(rand.Reader)\<close>: a 32-byte seed, then the key pair.\<close>

definition ed25519_GenerateKey :: "golib \<Rightarrow> world \<Rightarrow> (go_error + bytes \<times> bytes) \<times> world" where
  "ed25519_GenerateKey lib w =
     (let (r, w') = rand_ReadFull w 32
      in case r of
           Inl err \<Rightarrow> (Inl err, w')
         | Inr seed \<Rightarrow>
             (let privateKey = key_from_seed lib seed
              in (Inr (drop 32 privateKey, privateKey), w')))"

text \<open>
  \<^verbatim>\<open>base64.StdEncoding.EncodeToString\<close>: three bytes make a 24-bit value \<open>v\<close>, its
  four 6-bit parts index the alphabet (\<open>b64_char\<close> masks its index as the library does
  with \<^verbatim>\<open>&0x3F\<close>); a last group of one or two bytes is padded with \<^verbatim>\<open>=\<close>.
\<close>

definition b64_table :: string where
  "b64_table = ''ABCDEFGHIJKLMNOPQRSTUVWXYZabcdefghijklmnopqrstuvwxyz0123456789+/''"

definition b64_char :: "nat \<Rightarrow> char" where
  "b64_char i = b64_table ! (i mod 64)"

fun EncodeToString :: "bytes \<Rightarrow> string" where
  "EncodeToString [] = []"
| "EncodeToString [a] =
     (let v = unat a * 65536
      in [b64_char (v div 262144), b64_char (v div 4096), CHR ''='', CHR ''=''])"
| "EncodeToString [a, b] =
     (let v = unat a * 65536 + unat b * 256
      in [b64_char (v div 262144), b64_char (v div 4096), b64_char (v div 64), CHR ''=''])"
| "EncodeToString (a # b # c # src) =
     (let v = unat a * 65536 + unat b * 256 + unat c
      in [b64_char (v div 262144), b64_char (v div 4096), b64_char (v div 64), b64_char v]
         @ EncodeToString src)"

text \<open>
  \<^verbatim>\<open>time.Duration\<close> is an \<^verbatim>\<open>int64\<close> count of nanoseconds, and \<^verbatim>\<open>Time.Sub\<close> saturates at
  its ends. A \<open>Time\<close> is read in UTC; its monotonic reading is not kept apart.
\<close>

definition Second :: Duration where
  "Second = 1000000000"

definition minDuration :: Duration where
  "minDuration = - (2 ^ 63)"

definition maxDuration :: Duration where
  "maxDuration = 2 ^ 63 - 1"

definition Time_Sub :: "Time \<Rightarrow> Time \<Rightarrow> Duration" where
  "Time_Sub t u =
     (let d = t - u
      in if d < minDuration then minDuration
         else if maxDuration < d then maxDuration
         else d)"

text \<open>\<^verbatim>\<open>Time.UnixNano\<close>: the reading cut to an \<^verbatim>\<open>int64\<close>.\<close>

definition UnixNano :: "Time \<Rightarrow> 64 word" where
  "UnixNano t = word_of_int t"

text \<open>
  \<^verbatim>\<open>Time.MarshalJSON\<close> of a value whose Location is UTC, the only Location the model
  has: the RFC 3339 text in quotes, and an error when the year is not one of 0 to 9999.
  The year 0 begins 62167219200 seconds before the epoch, the year 10000 begins
  253402300800 seconds after it. (For a value in another Location the library looks at
  the year, and at the hour of the zone offset, in that Location.)
\<close>

definition dq :: char where
  "dq = CHR 0x22"

definition Time_MarshalJSON :: "golib \<Rightarrow> Time \<Rightarrow> go_error + string" where
  "Time_MarshalJSON lib t =
     (let sec = t div 1000000000
      in if sec < - 62167219200 \<or> 253402300800 \<le> sec
         then Inl (MarshalerError ''Time.MarshalJSON: year outside of range [0,9999]'')
         else Inr (dq # format_time lib t @ [dq]))"

definition bytes_of_string :: "string \<Rightarrow> bytes" where
  "bytes_of_string s = map (\<lambda>c. word_of_nat (of_char c)) s"

section \<open>Phase 2: cryptographic identity (src/unnamed/part_001)\<close>

record PeerIdentity =
  PublicKey :: bytes
  PrivateKey :: bytes
  ID :: string

definition GenerateIdentity :: "golib \<Rightarrow> world \<Rightarrow> (go_error + PeerIdentity) \<times> world" where
  "GenerateIdentity lib w =
     (let (r, w') = ed25519_GenerateKey lib w
      in case r of
           Inl err \<Rightarrow> (Inl err, w')
         | Inr (pub, priv) \<Rightarrow>
             (let id = EncodeToString pub
              in (Inr \<lparr>PublicKey = pub, PrivateKey = priv, ID = id\<rparr>, w')))"

section \<open>Phase 2: challenge-response authentication (src/tutorial/phase2/auth/main.go)\<close>

record AuthChallenge =
  Challenge :: bytes
  Timestamp :: Time
  Nonce :: "64 word"

record AuthResponse =
  PeerID :: string
  Signature :: bytes

text \<open>
  \<^verbatim>\<open>GenerateChallenge\<close> drops the result of \<^verbatim>\<open>rand.Read\<close>: on an error the buffer made
  by \<^verbatim>\<open>make\<close> keeps its zeros (a buffer filled in part is not modelled). It reads the
  clock twice, for \<^verbatim>\<open>Timestamp\<close> and for \<^verbatim>\<open>Nonce\<close>.
\<close>

definition GenerateChallenge :: "world \<Rightarrow> AuthChallenge \<times> world" where
  "GenerateChallenge w =
     (let (r, w1) = rand_ReadFull w 32;
          challenge = (case r of Inl err \<Rightarrow> replicate 32 0 | Inr bs \<Rightarrow> bs);
          (t1, w2) = time_Now w1;
          (t2, w3) = time_Now w2
      in (\<lparr>Challenge = challenge, Timestamp = t1, Nonce = UnixNano t2\<rparr>, w3))"

text \<open>
  \<^verbatim>\<open>json.Marshal(challenge)\<close>: the three fields under their tags, in the order of the
  struct; the byte slice as base64 text, the \<^verbatim>\<open>int64\<close> in decimal. It fails when the
  time does. (A \<^verbatim>\<open>nil\<close> slice, which the library writes as \<^verbatim>\<open>null\<close>, is not told apart
  from an empty one; the nonce of a challenge is never empty where its text matters.)
\<close>

definition json_key :: "string \<Rightarrow> string" where
  "json_key k = dq # k @ [dq, CHR '':'']"

definition json_Marshal :: "golib \<Rightarrow> AuthChallenge \<Rightarrow> go_error + bytes" where
  "json_Marshal lib c =
     (case Time_MarshalJSON lib (Timestamp c) of
        Inl err \<Rightarrow> Inl err
      | Inr ts \<Rightarrow>
          Inr (bytes_of_string
            (''{'' @ json_key ''challenge'' @ dq # EncodeToString (Challenge c) @ [dq]
             @ '','' @ json_key ''timestamp'' @ ts
             @ '','' @ json_key ''nonce'' @ Itoa (sint (Nonce c)) @ ''}'')))"

text \<open>
  Both functions write \<^verbatim>\<open>data, _ := json.Marshal(challenge)\<close>: on an error \<^verbatim>\<open>data\<close> is
  \<^verbatim>\<open>nil\<close> and the error is dropped.
\<close>

definition marshalled :: "golib \<Rightarrow> AuthChallenge \<Rightarrow> bytes" where
  "marshalled lib c = (case json_Marshal lib c of Inl err \<Rightarrow> [] | Inr data \<Rightarrow> data)"

definition RespondToChallenge :: "golib \<Rightarrow> PeerIdentity \<Rightarrow> AuthChallenge \<Rightarrow> panic + AuthResponse" where
  "RespondToChallenge lib pi challenge =
     (let data = marshalled lib challenge
      in case ed25519_Sign lib (PrivateKey pi) data of
           Inl p \<Rightarrow> Inl p
         | Inr signature \<Rightarrow> Inr \<lparr>PeerID = ID pi, Signature = signature\<rparr>)"

text \<open>
  \<^verbatim>\<open>VerifyResponse\<close> reads the clock once, in \<^verbatim>\<open>time.Since\<close>: \<open>now\<close> is that reading.
  The result is the pair the source returns, or the panic of \<^verbatim>\<open>ed25519.Verify\<close>.
\<close>

definition expired_reason :: "golib \<Rightarrow> Duration \<Rightarrow> string" where
  "expired_reason lib age = ''challenge expired (age: '' @ format_duration lib age @ '')''"

definition VerifyResponse ::
  "golib \<Rightarrow> Time \<Rightarrow> AuthChallenge \<Rightarrow> AuthResponse \<Rightarrow> bytes \<Rightarrow> panic + bool \<times> string" where
  "VerifyResponse lib now challenge response publicKey =
     (let age = Time_Sub now (Timestamp challenge)
      in if age > 30 * Second then Inr (False, expired_reason lib age)
         else
           (let data = marshalled lib challenge
            in case ed25519_Verify lib publicKey data (Signature response) of
                 Inl p \<Rightarrow> Inl p
               | Inr valid \<Rightarrow>
                   if \<not> valid then Inr (False, ''invalid signature'')
                   else Inr (True, ''authentication successful'')))"

text \<open>\<^verbatim>\<open>generateTestIdentity\<close>: a fresh key pair under a name and four digits of the clock.\<close>

definition generateTestIdentity ::
  "golib \<Rightarrow> string \<Rightarrow> world \<Rightarrow> (go_error + PeerIdentity) \<times> world" where
  "generateTestIdentity lib name w =
     (let (r, w1) = ed25519_GenerateKey lib w
      in case r of
           Inl err \<Rightarrow> (Inl err, w1)
         | Inr (pub, priv) \<Rightarrow>
             (let (t, w2) = time_Now w1
              in (Inr \<lparr>PublicKey = pub, PrivateKey = priv,
                       ID = name @ ''-test-id-'' @ Itoa (sint (UnixNano t) smod 10000)\<rparr>, w2)))"

text \<open>One bit of one byte of a slice, flipped in place.\<close>

definition flip_bit_at :: "bytes \<Rightarrow> nat \<Rightarrow> nat \<Rightarrow> bytes" where
  "flip_bit_at bs i k = bs[i := (bs ! i) XOR push_bit k 1]"

text \<open>
  A Go slice is a reference to an array, and a copy of a struct that holds a slice holds
  the same array. Where \<^verbatim>\<open>main\<close> writes through such a copy, the struct is modelled
  as Go stores it, with the address of the nonce's array, and the arrays live in a
  memory. \<open>contents\<close> is the challenge a function reads from a struct at a moment.
\<close>

type_synonym addr = nat
type_synonym memory = "addr \<Rightarrow> bytes"

record AuthChallengeStruct =
  ChallengeArray :: addr
  TimestampField :: Time
  NonceField :: "64 word"

definition contents :: "memory \<Rightarrow> AuthChallengeStruct \<Rightarrow> AuthChallenge" where
  "contents m c =
     \<lparr>Challenge = m (ChallengeArray c), Timestamp = TimestampField c, Nonce = NonceField c\<rparr>"

text \<open>The statement \<^verbatim>\<open>s[i] ^= v\<close> on a byte slice: a panic when the index is out of range.\<close>

definition xor_at :: "memory \<Rightarrow> addr \<Rightarrow> nat \<Rightarrow> byte \<Rightarrow> panic + memory" where
  "xor_at m a i v =
     (if i < length (m a) then Inr (m(a := (m a)[i := (m a) ! i XOR v]))
      else Inl (Panic (''index out of range ['' @ Itoa (int i) @ ''] with length ''
                       @ Itoa (int (length (m a))))))"

text \<open>
  Scenario 4 of \<^verbatim>\<open>main\<close>, the modified challenge attack, lines 121 to 124:
  \<^verbatim>\<open>modifiedChallenge := challenge\<close> copies the struct, the next line flips the bits of
  the first nonce byte through the copy, Bob answers the copy, and the answer is
  verified against \<^verbatim>\<open>challenge\<close>. The result is what line 125 prints.
\<close>

definition scenario4 ::
  "golib \<Rightarrow> Time \<Rightarrow> memory \<Rightarrow> AuthChallengeStruct \<Rightarrow> PeerIdentity \<Rightarrow> panic + bool \<times> string" where
  "scenario4 lib now m challenge bob =
     (let modifiedChallenge = challenge
      in case xor_at m (ChallengeArray modifiedChallenge) 0 0xFF of
           Inl p \<Rightarrow> Inl p
         | Inr m' \<Rightarrow>
             (case RespondToChallenge lib bob (contents m' modifiedChallenge) of
                Inl p \<Rightarrow> Inl p
              | Inr modifiedResponse \<Rightarrow>
                  VerifyResponse lib now (contents m' challenge) modifiedResponse
                    (PublicKey bob)))"

section \<open>Phase 3: the routing table (src/unnamed/part_002)\<close>

record PeerInfo =
  ID :: string
  Name :: string
  Address :: string
  Status :: string

text \<open>
  \<^verbatim>\<open>RoutingTable\<close>: the two Go maps are partial functions. The mutex is taken and
  released inside every method and guards nothing a sequential caller can observe.
\<close>

record RoutingTable =
  routes :: "string \<rightharpoonup> string"
  peers :: "string \<rightharpoonup> PeerInfo"

definition NewRoutingTable :: RoutingTable where
  "NewRoutingTable = \<lparr>routes = Map.empty, peers = Map.empty\<rparr>"

definition AddPeer :: "RoutingTable \<Rightarrow> PeerInfo \<Rightarrow> RoutingTable" where
  "AddPeer rt info = rt\<lparr>peers := (peers rt)(ID info \<mapsto> info)\<rparr>"

text \<open>
  \<^verbatim>\<open>AddRoute\<close> returns the error (\<open>None\<close> is Go's \<^verbatim>\<open>nil\<close>) and the table as the
  call leaves it.
\<close>

definition AddRoute :: "RoutingTable \<Rightarrow> string \<Rightarrow> string \<Rightarrow> go_error option \<times> RoutingTable" where
  "AddRoute rt ip peerID =
     (case peers rt peerID of
        None \<Rightarrow> (Some (Errorf (''peer '' @ peerID @ '' not found'')), rt)
      | Some peer \<Rightarrow> (None, rt\<lparr>routes := (routes rt)(ip \<mapsto> peerID)\<rparr>))"

text \<open>The zero value \<^verbatim>\<open>PeerInfo{}\<close>.\<close>

definition PeerInfo_zero :: PeerInfo where
  "PeerInfo_zero = \<lparr>ID = [], Name = [], Address = [], Status = []\<rparr>"

definition GetPeer :: "RoutingTable \<Rightarrow> string \<Rightarrow> PeerInfo \<times> bool" where
  "GetPeer rt ip =
     (case routes rt ip of
        None \<Rightarrow> (PeerInfo_zero, False)
      | Some peerID \<Rightarrow>
          (case peers rt peerID of
             None \<Rightarrow> (PeerInfo_zero, False)
           | Some peer \<Rightarrow> (peer, True)))"

record Packet =
  SrcIP :: bytes
  DstIP :: bytes
  Protocol :: byte
  Data :: bytes

text \<open>Go's slice expression \<^verbatim>\<open>data[i:j]\<close>, used only where \<open>j \<le> length data\<close>.\<close>

definition slice :: "'a list \<Rightarrow> nat \<Rightarrow> nat \<Rightarrow> 'a list" where
  "slice xs i j = take (j - i) (drop i xs)"

definition parsePacket :: "bytes \<Rightarrow> go_error + Packet" where
  "parsePacket data =
     (if length data < 20 then Inl (Errorf ''packet too short'')
      else Inr \<lparr>SrcIP = slice data 12 16, DstIP = slice data 16 20,
                Protocol = data ! 9, Data = data\<rparr>)"

text \<open>
  \<^verbatim>\<open>net.IP.String\<close> on the four-byte addresses \<^verbatim>\<open>parsePacket\<close> cuts out: dotted
  decimal. No other length reaches it from \<^verbatim>\<open>processVPNPacket\<close>; the empty address is
  \<^verbatim>\<open><nil>\<close> as in the library, and the text of the remaining lengths is cut to its
  first character.
\<close>

fun IP_String :: "bytes \<Rightarrow> string" where
  "IP_String [] = ''<nil>''"
| "IP_String [a, b, c, d] =
     digits (unat a) @ ''.'' @ digits (unat b) @ ''.'' @ digits (unat c) @ ''.'' @ digits (unat d)"
| "IP_String ip = ''?''"

text \<open>
  \<^verbatim>\<open>processVPNPacket\<close> returns nothing; what it decides is the branch it leaves by,
  each marked in the source by the line it prints. It has no error result and no
  statement that can panic, so the model is a total function into \<open>verdict\<close>.
\<close>

datatype verdict =
  ParseFailed go_error
  | NoRoute string
  | Queued PeerInfo
  | Routed PeerInfo

definition processVPNPacket :: "bytes \<Rightarrow> RoutingTable \<Rightarrow> verdict" where
  "processVPNPacket packetData routingTable =
     (case parsePacket packetData of
        Inl err \<Rightarrow> ParseFailed err
      | Inr packet \<Rightarrow>
          (let dstIP = IP_String (DstIP packet);
               (peer, exists) = GetPeer routingTable dstIP
           in if \<not> exists then NoRoute dstIP
              else if Status peer \<noteq> ''connected'' then Queued peer
              else Routed peer))"

text \<open>The forwarding decision: the packet goes out on the last branch only.\<close>

definition allow :: "verdict \<Rightarrow> bool" where
  "allow v = (case v of Routed peer \<Rightarrow> True | _ \<Rightarrow> False)"

text \<open>A run of table operations from the empty table, as \<^verbatim>\<open>main\<close> performs them.\<close>

datatype table_op = OpAddPeer PeerInfo | OpAddRoute string string

fun apply_op :: "RoutingTable \<Rightarrow> table_op \<Rightarrow> RoutingTable" where
  "apply_op rt (OpAddPeer info) = AddPeer rt info"
| "apply_op rt (OpAddRoute ip peerID) = snd (AddRoute rt ip peerID)"

definition run_ops :: "table_op list \<Rightarrow> RoutingTable" where
  "run_ops ops = foldl apply_op NewRoutingTable ops"

definition routes_registered :: "RoutingTable \<Rightarrow> bool" where
  "routes_registered rt = (\<forall>ip peerID. routes rt ip = Some peerID \<longrightarrow> peers rt peerID \<noteq> None)"

section \<open>The trust state machine of the specification\<close>

text \<open>
  Modelled from the spec: the status of a TrustRecord (section 3). The source files hold
  no trust store, no handshake engine and no operator calls.
\<close>

datatype status = Unknown | PendingInbound | PendingOutbound | Authorized | Blocked

text \<open>Modelled from the spec: the TrustRecord of section 3; it is not in the source files.\<close>

record TrustRecord =
  peerID :: string
  publicKey :: bytes
  displayName :: string
  status :: status
  assignedAddress :: "string option"
  lastHandshakeAt :: Time

text \<open>
  Modelled from the spec: the events of the state machine of section 4.3, and the two
  ends of a handshake of section 4.4 (steps 4 and 5); the engine and the operator's
  calls are not in the source files.
\<close>

datatype event =
  InboundObserved
  | OperatorAdds
  | OperatorApproves
  | OperatorRejects
  | PeerApprovesUs
  | OperatorBlocks
  | OperatorUnblocks
  | OperatorRemoves
  | HandshakeSucceeded
  | HandshakeFailed

text \<open>
  Modelled from the spec: the transition function of the trust status, which is not in
  the source files. Its equations are the arrows of the state machine of section 4.3,
  in its order; \<open>Blocked\<close> is reachable from any state; a successful handshake moves
  \<open>Unknown\<close> to \<open>PendingInbound\<close> and nothing else (section 4.4, step 4). An event
  with no arrow from a status leaves it.
\<close>

fun next_status :: "event \<Rightarrow> status \<Rightarrow> status" where
  "next_status InboundObserved Unknown = PendingInbound"
| "next_status OperatorAdds Unknown = PendingOutbound"
| "next_status OperatorApproves PendingInbound = Authorized"
| "next_status OperatorRejects PendingInbound = Blocked"
| "next_status PeerApprovesUs PendingOutbound = Authorized"
| "next_status OperatorBlocks s = Blocked"
| "next_status OperatorUnblocks Blocked = PendingInbound"
| "next_status HandshakeSucceeded Unknown = PendingInbound"
| "next_status ev s = s"

text \<open>
  Modelled from the spec: the Trust Store of section 4.3, a mapping from peer identifier
  to trust record; it is not in the source files.
\<close>

type_synonym TrustStore = "string \<rightharpoonup> TrustRecord"

text \<open>
  Modelled from the spec: the status the store gives a peer. A record exists only for a
  peer that has been observed (section 3); the store is not in the source files, and a
  peer with no record counts as \<open>Unknown\<close>, the initial state.
\<close>

definition status_of :: "TrustStore \<Rightarrow> string \<Rightarrow> status" where
  "status_of store p = (case store p of None \<Rightarrow> Unknown | Some r \<Rightarrow> status r)"

text \<open>
  Modelled from the spec: the events that create the record of a peer that has none,
  which are first contact, the operator adding the peer (section 3) and a successful
  handshake (section 4.4, step 4); the engine that runs them is not in the source files.
\<close>

definition creates_record :: "event \<Rightarrow> bool" where
  "creates_record ev = (ev = InboundObserved \<or> ev = OperatorAdds \<or> ev = HandshakeSucceeded)"

text \<open>
  Modelled from the spec: one event on the record of one peer, in a store that is not in
  the source files. A removal deletes the record; a failed handshake creates and changes
  nothing (section 4.4, step 5); any other event moves the status along the state
  machine, and a successful handshake stamps \<open>lastHandshakeAt\<close>.
\<close>

definition apply_event :: "TrustStore \<Rightarrow> string \<Rightarrow> bytes \<Rightarrow> Time \<Rightarrow> event \<Rightarrow> TrustStore" where
  "apply_event store p key now ev =
     (if ev = OperatorRemoves then store(p := None)
      else if ev = HandshakeFailed then store
      else
        (case store p of
           None \<Rightarrow>
             if creates_record ev
             then store(p \<mapsto> \<lparr>peerID = p, publicKey = key, displayName = [],
                                status = next_status ev Unknown, assignedAddress = None,
                                lastHandshakeAt = now\<rparr>)
             else store
         | Some r \<Rightarrow>
             store(p \<mapsto> r\<lparr>status := next_status ev (status r),
                             lastHandshakeAt :=
                               (if ev = HandshakeSucceeded then now else lastHandshakeAt r)\<rparr>)))"

section \<open>Concrete values on which the programs are run\<close>

text \<open>
  An instance of the library parameters that can be evaluated: the public key is the
  seed, a signature is the public key followed by the message. It has the property
  above and no security; it serves to run the functions on inputs.
\<close>

definition toy_lib :: golib where
  "toy_lib =
     \<lparr>key_from_seed = (\<lambda>seed. seed @ seed),
      sign_core = (\<lambda>priv msg. drop 32 priv @ msg),
      verify_core = (\<lambda>pub msg sig. sig = pub @ msg),
      format_time = (\<lambda>t. Itoa t),
      format_duration = (\<lambda>d. Itoa d @ ''ns'')\<rparr>"

text \<open>
  A world whose clock stands at one reading (1700000000 seconds after the epoch) and
  whose \<open>k\<close>-th read of the entropy source delivers 32 bytes of value \<open>k + 1\<close>.
\<close>

definition still_world :: world where
  "still_world =
     \<lparr>clock = (\<lambda>k. 1700000000000000000), ticks = 0,
      entropy = (\<lambda>k. Inr (replicate 32 (word_of_nat (Suc k)))), reads = 0\<rparr>"

text \<open>A world whose entropy source fails.\<close>

definition dry_world :: world where
  "dry_world =
     \<lparr>clock = (\<lambda>k. 1700000000000000000), ticks = 0,
      entropy = (\<lambda>k. Inl (ReaderError ''entropy source unavailable'')), reads = 0\<rparr>"

text \<open>Two identities under \<open>toy_lib\<close>, with the seeds of the first two reads.\<close>

definition alice :: PeerIdentity where
  "alice =
     \<lparr>PublicKey = replicate 32 1, PrivateKey = replicate 32 1 @ replicate 32 1,
      PeerIdentity.ID = ''alice-test-id-0''\<rparr>"

definition bob :: PeerIdentity where
  "bob =
     \<lparr>PublicKey = replicate 32 2, PrivateKey = replicate 32 2 @ replicate 32 2,
      PeerIdentity.ID = ''bob-test-id-0''\<rparr>"

text \<open>The world after \<^verbatim>\<open>main\<close> has made its first identity: one read, one clock reading.\<close>

definition second_world :: world where
  "second_world = still_world\<lparr>ticks := 1, reads := 1\<rparr>"

text \<open>Bob's signature over a message, under \<open>toy_lib\<close>.\<close>

definition bob_response :: "AuthChallenge \<Rightarrow> AuthResponse" where
  "bob_response c =
     \<lparr>PeerID = ''bob-test-id-0'', Signature = replicate 32 2 @ marshalled toy_lib c\<rparr>"

text \<open>A challenge issued at the clock's reading, and one stamped in the year 10000.\<close>

definition challenge0 :: AuthChallenge where
  "challenge0 = \<lparr>Challenge = replicate 32 7, Timestamp = 1700000000000000000, Nonce = 1\<rparr>"

definition far_challenge :: AuthChallenge where
  "far_challenge =
     \<lparr>Challenge = replicate 32 7, Timestamp = 253402300800000000000, Nonce = 1\<rparr>"

text \<open>The challenge of the year 10000 with the lowest bit of its first nonce byte flipped.\<close>

definition far_challenge_flipped :: AuthChallenge where
  "far_challenge_flipped = far_challenge\<lparr>Challenge := flip_bit_at (Challenge far_challenge) 0 0\<rparr>"

text \<open>
  The memory of \<^verbatim>\<open>main\<close> when scenario 4 begins: the array of the challenge's nonce
  at address 0, and the struct \<^verbatim>\<open>challenge\<close> that refers to it.
\<close>

definition memory0 :: memory where
  "memory0 = (\<lambda>a. [])(0 := replicate 32 7)"

definition challenge_struct0 :: AuthChallengeStruct where
  "challenge_struct0 =
     \<lparr>ChallengeArray = 0, TimestampField = 1700000000000000000, NonceField = 1\<rparr>"

text \<open>The identity \<^verbatim>\<open>GenerateIdentity\<close> makes in \<open>still_world\<close> under \<open>toy_lib\<close>.\<close>

definition first_identity :: PeerIdentity where
  "first_identity =
     \<lparr>PublicKey = replicate 32 1, PrivateKey = replicate 32 1 @ replicate 32 1,
      PeerIdentity.ID = ''AQEBAQEBAQEBAQEBAQEBAQEBAQEBAQEBAQEBAQEBAQE=''\<rparr>"

text \<open>
  Modelled from the spec: the trust store (not in the source files) after the operator
  added one peer, which is then \<open>PendingOutbound\<close>.
\<close>

definition outbound_store :: TrustStore where
  "outbound_store = apply_event Map.empty ''peer-bob'' (replicate 32 2) 0 OperatorAdds"

text \<open>
  Modelled from the spec: the trust store (not in the source files) after an inbound
  connection of one peer was observed, which is then \<open>PendingInbound\<close>.
\<close>

definition inbound_store :: TrustStore where
  "inbound_store = apply_event Map.empty ''peer-bob'' (replicate 32 2) 0 InboundObserved"

text \<open>The first peer of \<^verbatim>\<open>main\<close> in part_002, its table, its route and a packet for it.\<close>

definition alice_info :: PeerInfo where
  "alice_info =
     \<lparr>ID = ''peer-alice'', Name = ''Alice's Computer'', Address = ''192.168.1.100:9001'',
      Status = ''connected''\<rparr>"

definition alice_table :: RoutingTable where
  "alice_table = run_ops [OpAddPeer alice_info]"

definition routed_table :: RoutingTable where
  "routed_table = run_ops [OpAddPeer alice_info, OpAddRoute ''10.66.0.2'' ''peer-alice'']"

definition packet_to_alice :: bytes where
  "packet_to_alice = [0x45, 0, 0, 0, 0, 0, 0, 0, 0, 1, 0, 0, 10, 66, 0, 1, 10, 66, 0, 2]"

section \<open>Routing table: properties\<close>

lemma AddRoute_unknown:
  "peers rt pid = None \<Longrightarrow>
   AddRoute rt ip pid = (Some (Errorf (''peer '' @ pid @ '' not found'')), rt)"
  by (simp add: AddRoute_def)

lemma AddRoute_known:
  "peers rt pid = Some p \<Longrightarrow>
   AddRoute rt ip pid = (None, rt\<lparr>routes := (routes rt)(ip \<mapsto> pid)\<rparr>)"
  by (simp add: AddRoute_def)

lemma AddRoute_ok_iff: "fst (AddRoute rt ip pid) = None \<longleftrightarrow> peers rt pid \<noteq> None"
  by (simp add: AddRoute_def split: option.splits)

lemma routes_registered_AddPeer:
  "routes_registered rt \<Longrightarrow> routes_registered (AddPeer rt info)"
  by (auto simp: routes_registered_def AddPeer_def)

lemma routes_registered_AddRoute:
  "routes_registered rt \<Longrightarrow> routes_registered (snd (AddRoute rt ip pid))"
  by (auto simp: routes_registered_def AddRoute_def split: option.splits)

lemma routes_registered_apply_op:
  "routes_registered rt \<Longrightarrow> routes_registered (apply_op rt x)"
  by (cases x) (simp_all add: routes_registered_AddPeer routes_registered_AddRoute)

lemma routes_registered_foldl:
  "routes_registered rt \<Longrightarrow> routes_registered (foldl apply_op rt ops)"
  by (induction ops arbitrary: rt) (simp_all add: routes_registered_apply_op)

lemma routes_registered_New: "routes_registered NewRoutingTable"
  by (simp add: routes_registered_def NewRoutingTable_def)

text \<open>
  C10. \<^verbatim>\<open>AddRoute\<close> with a peer identifier that has no entry in \<open>peers\<close> returns the
  error and leaves the table, its routes included, as it was. A call that returns no
  error has stored a route to a registered peer; it keeps every route pointing at a
  registered peer if that held before; and so it holds of every table built from the
  empty one by \<^verbatim>\<open>AddPeer\<close> and \<^verbatim>\<open>AddRoute\<close>, the only operations that write the table.
\<close>

theorem AddRoute_unregistered_peer_rejected:
  "(peers rt pid = None \<longrightarrow>
      AddRoute rt ip pid = (Some (Errorf (''peer '' @ pid @ '' not found'')), rt))
   \<and> (fst (AddRoute rt ip pid) = None \<longrightarrow>
        routes (snd (AddRoute rt ip pid)) ip = Some pid
        \<and> peers (snd (AddRoute rt ip pid)) pid \<noteq> None)
   \<and> (routes_registered rt \<longrightarrow> routes_registered (snd (AddRoute rt ip pid)))
   \<and> routes_registered (run_ops ops)"
proof (intro conjI impI)
  assume "peers rt pid = None"
  then show "AddRoute rt ip pid = (Some (Errorf (''peer '' @ pid @ '' not found'')), rt)"
    by (rule AddRoute_unknown)
next
  assume ok: "fst (AddRoute rt ip pid) = None"
  then obtain p where p: "peers rt pid = Some p"
    by (auto simp: AddRoute_ok_iff)
  show "routes (snd (AddRoute rt ip pid)) ip = Some pid"
    by (simp add: AddRoute_known [OF p])
  show "peers (snd (AddRoute rt ip pid)) pid \<noteq> None"
    by (simp add: AddRoute_known [OF p] p)
next
  assume "routes_registered rt"
  then show "routes_registered (snd (AddRoute rt ip pid))"
    by (rule routes_registered_AddRoute)
next
  show "routes_registered (run_ops ops)"
    unfolding run_ops_def by (rule routes_registered_foldl [OF routes_registered_New])
qed

text \<open>
  The table of \<^verbatim>\<open>main\<close> after its first peer: a route to the unregistered
  \<^verbatim>\<open>peer-bob\<close> is refused and changes nothing, a route to \<^verbatim>\<open>peer-alice\<close> is stored.
\<close>

theorem AddRoute_unregistered_peer_rejected_witness:
  "peers alice_table ''peer-bob'' = None
   \<and> AddRoute alice_table ''10.66.0.3'' ''peer-bob''
       = (Some (Errorf ''peer peer-bob not found''), alice_table)
   \<and> fst (AddRoute alice_table ''10.66.0.2'' ''peer-alice'') = None
   \<and> routes (snd (AddRoute alice_table ''10.66.0.2'' ''peer-alice'')) ''10.66.0.2''
       = Some ''peer-alice''
   \<and> routes_registered alice_table
   \<and> routes_registered (snd (AddRoute alice_table ''10.66.0.2'' ''peer-alice''))"
proof -
  have none: "peers alice_table ''peer-bob'' = None"
    by (simp add: alice_table_def run_ops_def NewRoutingTable_def AddPeer_def alice_info_def)
  have ok: "fst (AddRoute alice_table ''10.66.0.2'' ''peer-alice'') = None"
    by (simp add: AddRoute_def alice_table_def run_ops_def NewRoutingTable_def AddPeer_def
        alice_info_def)
  have reg: "routes_registered alice_table"
    using AddRoute_unregistered_peer_rejected [of alice_table "''peer-bob''" "''10.66.0.3''"
        "[OpAddPeer alice_info]"]
    by (simp add: alice_table_def)
  show ?thesis
    using none ok reg
      AddRoute_unregistered_peer_rejected [of alice_table "''peer-bob''" "''10.66.0.3''" "[]"]
      AddRoute_unregistered_peer_rejected [of alice_table "''peer-alice''" "''10.66.0.2''" "[]"]
    by simp
qed

lemma IP_String_of_packet: "IP_String (slice packet_to_alice 16 20) = ''10.66.0.2''"
  by (simp add: packet_to_alice_def slice_def digits.simps)

lemma GetPeer_found:
  "snd (GetPeer rt ip) \<longleftrightarrow> (\<exists>pid. routes rt ip = Some pid \<and> peers rt pid \<noteq> None)"
  by (auto simp: GetPeer_def split: option.splits)

lemma GetPeer_peer:
  "routes rt ip = Some pid \<Longrightarrow> peers rt pid = Some p \<Longrightarrow> GetPeer rt ip = (p, True)"
  by (simp add: GetPeer_def)

lemma DstIP_parsePacket:
  "parsePacket data = Inr packet \<Longrightarrow> DstIP packet = slice data 16 20"
  by (auto simp: parsePacket_def split: if_splits)

text \<open>
  C5, as the code decides it. The packet is forwarded exactly when it has its twenty
  header bytes, the routing table has a route for its destination, the peer of that
  route is registered, and the \<^verbatim>\<open>Status\<close> string of that peer is \<^verbatim>\<open>connected\<close>. Every
  other packet leaves \<^verbatim>\<open>processVPNPacket\<close> by one of its three earlier returns (too
  short to parse, no route, peer not connected); the function has no error result and
  cannot panic. The code knows no trust status: a
  peer whose \<^verbatim>\<open>Status\<close> is any other string, \<^verbatim>\<open>Authorized\<close> included, gets no packet.
\<close>

theorem processVPNPacket_forwards_iff_connected:
  "(allow (processVPNPacket data rt) \<longleftrightarrow>
      20 \<le> length data
      \<and> (\<exists>pid peer. routes rt (IP_String (slice data 16 20)) = Some pid
                     \<and> peers rt pid = Some peer \<and> Status peer = ''connected''))
   \<and> (\<not> allow (processVPNPacket data rt) \<longleftrightarrow>
        (\<exists>err. processVPNPacket data rt = ParseFailed err)
        \<or> (\<exists>dst. processVPNPacket data rt = NoRoute dst)
        \<or> (\<exists>peer. processVPNPacket data rt = Queued peer))"
proof (rule conjI)
  let ?dst = "IP_String (slice data 16 20)"
  show "allow (processVPNPacket data rt) \<longleftrightarrow>
      20 \<le> length data
      \<and> (\<exists>pid peer. routes rt ?dst = Some pid
                     \<and> peers rt pid = Some peer \<and> Status peer = ''connected'')"
  proof (cases "length data < 20")
    case True
    then show ?thesis
      by (simp add: processVPNPacket_def parsePacket_def allow_def)
  next
    case False
    show ?thesis
    proof (cases "routes rt ?dst")
      case None
      with False show ?thesis
        by (simp add: processVPNPacket_def parsePacket_def allow_def GetPeer_def)
    next
      case (Some pid)
      show ?thesis
      proof (cases "peers rt pid")
        case None
        with False Some show ?thesis
          by (simp add: processVPNPacket_def parsePacket_def allow_def GetPeer_def)
      next
        case (Some peer)
        with False \<open>routes rt ?dst = Some pid\<close> show ?thesis
          by (simp add: processVPNPacket_def parsePacket_def allow_def GetPeer_def)
      qed
    qed
  qed
next
  show "\<not> allow (processVPNPacket data rt) \<longleftrightarrow>
        (\<exists>err. processVPNPacket data rt = ParseFailed err)
        \<or> (\<exists>dst. processVPNPacket data rt = NoRoute dst)
        \<or> (\<exists>peer. processVPNPacket data rt = Queued peer)"
    by (cases "processVPNPacket data rt") (simp_all add: allow_def)
qed

text \<open>
  The claim lets a packet through only to a peer whose status is \<^verbatim>\<open>Authorized\<close>. The
  packet of \<^verbatim>\<open>main\<close> for 10.66.0.2 is routed to a peer whose status is \<^verbatim>\<open>connected\<close>.
\<close>

theorem processVPNPacket_routes_connected_peer:
  "processVPNPacket packet_to_alice routed_table = Routed alice_info
   \<and> allow (processVPNPacket packet_to_alice routed_table)
   \<and> Status alice_info \<noteq> ''Authorized''"
  by (simp add: processVPNPacket_def parsePacket_def allow_def GetPeer_def packet_to_alice_def
      routed_table_def run_ops_def NewRoutingTable_def AddPeer_def AddRoute_def alice_info_def
      slice_def digits.simps)

section \<open>Authentication: properties\<close>

lemma Time_Sub_expired:
  "30 * Second < Time_Sub now t \<longleftrightarrow> 30 * Second < now - t"
  by (simp add: Time_Sub_def Let_def minDuration_def maxDuration_def Second_def)

lemma io_ReadFull_length: "io_ReadFull src n = Inr bs \<Longrightarrow> length bs = n"
  by (auto simp: io_ReadFull_def split: sum.splits if_splits)

lemma ed25519_GenerateKey_error:
  "fst (ed25519_GenerateKey lib w) = Inl err \<longleftrightarrow> io_ReadFull (entropy w (reads w)) 32 = Inl err"
  by (simp add: ed25519_GenerateKey_def rand_ReadFull_def Let_def split: sum.splits)

lemma ed25519_GenerateKey_pair:
  assumes "fst (ed25519_GenerateKey lib w) = Inr (pub, priv)"
  obtains seed where "length seed = 32" and "priv = key_from_seed lib seed"
    and "pub = drop 32 (key_from_seed lib seed)"
proof -
  from assms obtain seed where seed: "io_ReadFull (entropy w (reads w)) 32 = Inr seed"
    and keys: "priv = key_from_seed lib seed" "pub = drop 32 (key_from_seed lib seed)"
    by (auto simp: ed25519_GenerateKey_def rand_ReadFull_def Let_def split: sum.splits)
  from seed have "length seed = 32"
    by (rule io_ReadFull_length)
  then show thesis
    using keys by (rule that)
qed

lemma generated_key_lengths:
  assumes "ed25519_correct lib" and "fst (ed25519_GenerateKey lib w) = Inr (pub, priv)"
  shows "length priv = 64" and "length pub = 32"
proof -
  from assms(2) obtain seed where seed: "length seed = 32"
    and keys: "priv = key_from_seed lib seed" "pub = drop 32 (key_from_seed lib seed)"
    by (rule ed25519_GenerateKey_pair)
  from assms(1) seed have "length (key_from_seed lib seed) = 64"
    by (simp add: ed25519_correct_def)
  with keys show "length priv = 64" and "length pub = 32"
    by simp_all
qed

lemma generated_key_verifies:
  assumes "ed25519_correct lib" and "fst (ed25519_GenerateKey lib w) = Inr (pub, priv)"
  shows "verify_core lib pub msg (sign_core lib priv msg)"
proof -
  from assms(2) obtain seed where seed: "length seed = 32"
    and keys: "priv = key_from_seed lib seed" "pub = drop 32 (key_from_seed lib seed)"
    by (rule ed25519_GenerateKey_pair)
  from assms(1) seed keys show ?thesis
    by (simp add: ed25519_correct_def)
qed

text \<open>Both constructors of the source take the keys of an identity from \<^verbatim>\<open>GenerateKey\<close>.\<close>

lemma generateTestIdentity_keys:
  "fst (generateTestIdentity lib name w) = Inr ident \<Longrightarrow>
   fst (ed25519_GenerateKey lib w) = Inr (PublicKey ident, PrivateKey ident)"
  by (auto simp: generateTestIdentity_def Let_def split: prod.splits sum.splits)

lemma GenerateIdentity_keys:
  "fst (GenerateIdentity lib w) = Inr ident \<Longrightarrow>
   fst (ed25519_GenerateKey lib w) = Inr (PublicKey ident, PrivateKey ident)"
  by (auto simp: GenerateIdentity_def Let_def split: prod.splits sum.splits)

lemma RespondToChallenge_generated:
  assumes "ed25519_correct lib"
    and "fst (ed25519_GenerateKey lib w) = Inr (PublicKey ident, PrivateKey ident)"
  shows "RespondToChallenge lib ident c =
           Inr \<lparr>PeerID = PeerIdentity.ID ident,
                Signature = sign_core lib (PrivateKey ident) (marshalled lib c)\<rparr>"
  using generated_key_lengths(1) [OF assms]
  by (simp add: RespondToChallenge_def ed25519_Sign_def)

lemma VerifyResponse_cases:
  assumes "length pk = 32"
  shows "VerifyResponse lib now c r pk =
           Inr (if 30 * Second < now - Timestamp c
                then (False, expired_reason lib (Time_Sub now (Timestamp c)))
                else if verify_core lib pk (marshalled lib c) (Signature r)
                then (True, ''authentication successful'')
                else (False, ''invalid signature''))"
  using assms by (simp add: VerifyResponse_def ed25519_Verify_def Let_def Time_Sub_expired)

text \<open>
  Under a claimed key of any other length, the empty key of a transport that provides
  none included, a fresh challenge ends in the panic of \<^verbatim>\<open>ed25519.Verify\<close>.
\<close>

lemma VerifyResponse_panics:
  assumes "length pk \<noteq> 32" and "now - Timestamp c \<le> 30 * Second"
  shows "VerifyResponse lib now c r pk
           = Inl (Panic (''ed25519: bad public key length: '' @ Itoa (int (length pk))))"
  using assms by (simp add: VerifyResponse_def ed25519_Verify_def Let_def Time_Sub_expired)

lemma toy_lib_correct: "ed25519_correct toy_lib"
  by (simp add: ed25519_correct_def toy_lib_def)

lemma alice_generated:
  "fst (ed25519_GenerateKey toy_lib still_world) = Inr (PublicKey alice, PrivateKey alice)"
  by (simp add: ed25519_GenerateKey_def rand_ReadFull_def io_ReadFull_def still_world_def
      toy_lib_def alice_def)

lemma bob_generated:
  "fst (ed25519_GenerateKey toy_lib second_world) = Inr (PublicKey bob, PrivateKey bob)"
  by (simp add: ed25519_GenerateKey_def rand_ReadFull_def io_ReadFull_def still_world_def
      second_world_def toy_lib_def bob_def)

lemma main_identities:
  "generateTestIdentity toy_lib ''alice'' still_world = (Inr alice, second_world)"
  "fst (generateTestIdentity toy_lib ''bob'' second_world) = Inr bob"
  by (simp_all add: generateTestIdentity_def ed25519_GenerateKey_def rand_ReadFull_def
      io_ReadFull_def time_Now_def still_world_def second_world_def toy_lib_def alice_def bob_def
      UnixNano_def smod_int_alt_def Itoa_def digits.simps)

lemma bob_responds:
  "RespondToChallenge toy_lib bob c = Inr (bob_response c)"
  by (simp add: RespondToChallenge_def ed25519_Sign_def bob_def bob_response_def toy_lib_def)

text \<open>
  C1. An identity whose keys come from \<^verbatim>\<open>ed25519.GenerateKey\<close>, as both constructors
  of the source make it, answers any challenge without a panic, and while the challenge
  is at most 30 seconds old the answer verifies under the identity's own public key:
  \<^verbatim>\<open>VerifyResponse\<close> returns \<^verbatim>\<open>true\<close> and \<^verbatim>\<open>authentication successful\<close>.
\<close>

theorem VerifyResponse_accepts_own_response:
  assumes "ed25519_correct lib"
    and "fst (ed25519_GenerateKey lib w) = Inr (PublicKey ident, PrivateKey ident)"
    and "now - Timestamp c \<le> 30 * Second"
  shows "\<exists>response. RespondToChallenge lib ident c = Inr response
           \<and> VerifyResponse lib now c response (PublicKey ident)
               = Inr (True, ''authentication successful'')"
proof -
  let ?response = "\<lparr>PeerID = PeerIdentity.ID ident,
                     Signature = sign_core lib (PrivateKey ident) (marshalled lib c)\<rparr>"
  have "RespondToChallenge lib ident c = Inr ?response"
    using assms(1,2) by (rule RespondToChallenge_generated)
  moreover have "VerifyResponse lib now c ?response (PublicKey ident)
      = Inr (True, ''authentication successful'')"
    using assms(3) generated_key_verifies [OF assms(1,2)]
    by (simp add: VerifyResponse_cases [OF generated_key_lengths(2) [OF assms(1,2)]])
  ultimately show ?thesis
    by blast
qed

text \<open>Bob, five seconds after the challenge was issued.\<close>

theorem VerifyResponse_accepts_own_response_witness:
  "RespondToChallenge toy_lib bob challenge0 = Inr (bob_response challenge0)
   \<and> VerifyResponse toy_lib 1700000005000000000 challenge0 (bob_response challenge0)
        (PublicKey bob) = Inr (True, ''authentication successful'')"
proof -
  have age: "1700000005000000000 - Timestamp challenge0 \<le> 30 * Second"
    by (simp add: challenge0_def Second_def)
  from VerifyResponse_accepts_own_response [OF toy_lib_correct bob_generated age]
  show ?thesis
    by (simp add: bob_responds)
qed

lemma expired_reason_distinct:
  "expired_reason lib age \<noteq> ''invalid signature''"
  "expired_reason lib age \<noteq> ''authentication successful''"
  by (simp_all add: expired_reason_def)

text \<open>
  C2, as the code decides it. Under a claimed public key of 32 bytes \<^verbatim>\<open>VerifyResponse\<close>
  returns one of three results, by two checks in a fixed order: the expired reason when
  the challenge is more than 30 seconds old; otherwise \<^verbatim>\<open>authentication successful\<close>
  when \<^verbatim>\<open>ed25519.Verify\<close> accepts the signature under the claimed key over the marshalled
  challenge, and \<^verbatim>\<open>invalid signature\<close> when it rejects it. The three reasons are
  different strings. There is no check of the response's peer identity against the key
  and no fourth reason: the response a peer signs with its private key, verified under
  any claimed key while the challenge is fresh, gets the answer of \<^verbatim>\<open>ed25519.Verify\<close>
  under that key on the peer's signature, \<^verbatim>\<open>invalid signature\<close> when it rejects.
\<close>

theorem VerifyResponse_reasons:
  assumes "length pk = 32"
  shows "VerifyResponse lib now c r pk =
           Inr (if 30 * Second < now - Timestamp c
                then (False, expired_reason lib (Time_Sub now (Timestamp c)))
                else if verify_core lib pk (marshalled lib c) (Signature r)
                then (True, ''authentication successful'')
                else (False, ''invalid signature''))
         \<and> expired_reason lib age \<noteq> ''invalid signature''
         \<and> expired_reason lib age \<noteq> ''authentication successful''
         \<and> ''invalid signature'' \<noteq> ''authentication successful''
         \<and> (ed25519_correct lib
              \<and> fst (ed25519_GenerateKey lib w) = Inr (PublicKey signer, PrivateKey signer)
              \<and> now - Timestamp c \<le> 30 * Second \<longrightarrow>
              (\<exists>response. RespondToChallenge lib signer c = Inr response
                 \<and> Signature response = sign_core lib (PrivateKey signer) (marshalled lib c)
                 \<and> VerifyResponse lib now c response pk =
                     Inr (if verify_core lib pk (marshalled lib c) (Signature response)
                          then (True, ''authentication successful'')
                          else (False, ''invalid signature''))))"
proof (intro conjI impI)
  show "VerifyResponse lib now c r pk =
           Inr (if 30 * Second < now - Timestamp c
                then (False, expired_reason lib (Time_Sub now (Timestamp c)))
                else if verify_core lib pk (marshalled lib c) (Signature r)
                then (True, ''authentication successful'')
                else (False, ''invalid signature''))"
    using assms by (rule VerifyResponse_cases)
next
  show "expired_reason lib age \<noteq> ''invalid signature''"
    and "expired_reason lib age \<noteq> ''authentication successful''"
    by (rule expired_reason_distinct)+
next
  show "''invalid signature'' \<noteq> ''authentication successful''"
    by simp
next
  assume h: "ed25519_correct lib
    \<and> fst (ed25519_GenerateKey lib w) = Inr (PublicKey signer, PrivateKey signer)
    \<and> now - Timestamp c \<le> 30 * Second"
  let ?response = "\<lparr>PeerID = PeerIdentity.ID signer,
                     Signature = sign_core lib (PrivateKey signer) (marshalled lib c)\<rparr>"
  from h have correct: "ed25519_correct lib"
    and gen: "fst (ed25519_GenerateKey lib w) = Inr (PublicKey signer, PrivateKey signer)"
    and fresh: "now - Timestamp c \<le> 30 * Second"
    by simp_all
  have resp: "RespondToChallenge lib signer c = Inr ?response"
    using correct gen by (rule RespondToChallenge_generated)
  have "VerifyResponse lib now c ?response pk =
      Inr (if verify_core lib pk (marshalled lib c) (Signature ?response)
           then (True, ''authentication successful'')
           else (False, ''invalid signature''))"
    using fresh by (simp add: VerifyResponse_cases [OF assms])
  with resp show "\<exists>response. RespondToChallenge lib signer c = Inr response
      \<and> Signature response = sign_core lib (PrivateKey signer) (marshalled lib c)
      \<and> VerifyResponse lib now c response pk =
          Inr (if verify_core lib pk (marshalled lib c) (Signature response)
               then (True, ''authentication successful'')
               else (False, ''invalid signature''))"
    by (intro exI [of _ ?response]) simp
qed

text \<open>
  Bob's own answer under Bob's key and under Alice's, five seconds after the challenge
  was issued.
\<close>

theorem VerifyResponse_reasons_witness:
  "length (PublicKey alice) = 32
   \<and> VerifyResponse toy_lib 1700000005000000000 challenge0 (bob_response challenge0)
        (PublicKey bob) = Inr (True, ''authentication successful'')
   \<and> RespondToChallenge toy_lib bob challenge0 = Inr (bob_response challenge0)
   \<and> \<not> verify_core toy_lib (PublicKey alice) (marshalled toy_lib challenge0)
          (Signature (bob_response challenge0))
   \<and> VerifyResponse toy_lib 1700000005000000000 challenge0 (bob_response challenge0)
        (PublicKey alice) = Inr (False, ''invalid signature'')"
proof -
  have len: "length (PublicKey alice) = 32" "length (PublicKey bob) = 32"
    by (simp_all add: alice_def bob_def)
  have age: "1700000005000000000 - Timestamp challenge0 \<le> 30 * Second"
    by (simp add: challenge0_def Second_def)
  have own: "verify_core toy_lib (PublicKey bob) (marshalled toy_lib challenge0)
      (Signature (bob_response challenge0))"
    by (simp add: toy_lib_def bob_def bob_response_def)
  have other: "\<not> verify_core toy_lib (PublicKey alice) (marshalled toy_lib challenge0)
      (Signature (bob_response challenge0))"
    by (simp add: toy_lib_def alice_def bob_response_def)
  have "\<exists>response. RespondToChallenge toy_lib bob challenge0 = Inr response
      \<and> Signature response
          = sign_core toy_lib (PrivateKey bob) (marshalled toy_lib challenge0)
      \<and> VerifyResponse toy_lib 1700000005000000000 challenge0 response (PublicKey alice)
          = Inr (if verify_core toy_lib (PublicKey alice) (marshalled toy_lib challenge0)
                      (Signature response)
                 then (True, ''authentication successful'')
                 else (False, ''invalid signature''))"
    using VerifyResponse_reasons [OF len(1), of toy_lib 1700000005000000000 challenge0
        "bob_response challenge0" 0 second_world bob]
      toy_lib_correct bob_generated age
    by blast
  then have wrong: "VerifyResponse toy_lib 1700000005000000000 challenge0
      (bob_response challenge0) (PublicKey alice) = Inr (False, ''invalid signature'')"
    using other by (simp add: bob_responds)
  have right: "VerifyResponse toy_lib 1700000005000000000 challenge0
      (bob_response challenge0) (PublicKey bob) = Inr (True, ''authentication successful'')"
    using VerifyResponse_reasons [OF len(2), of toy_lib 1700000005000000000 challenge0
        "bob_response challenge0" 0 second_world bob] own age
    by simp
  show ?thesis
    using len(1) right wrong other bob_responds by simp
qed

text \<open>
  The claim wants the reason \<^verbatim>\<open>KeyMismatch\<close> for a response signed by one peer and
  presented under another peer's key. \<^verbatim>\<open>main\<close> runs this as its second scenario: Bob's
  response, verified under Alice's public key while the challenge is fresh, is rejected
  by the signature check and gets the reason of a bad signature.
\<close>

theorem VerifyResponse_wrong_key_is_invalid_signature:
  "VerifyResponse toy_lib 1700000005000000000 challenge0 (bob_response challenge0)
     (PublicKey alice) = Inr (False, ''invalid signature'')"
  by (simp add: VerifyResponse_def ed25519_Verify_def Time_Sub_def minDuration_def
      maxDuration_def Second_def Let_def challenge0_def toy_lib_def alice_def bob_response_def)

text \<open>
  C3. A challenge more than 30 seconds old gets the expired reason, whatever the
  response and the key are: \<^verbatim>\<open>VerifyResponse\<close> returns before it looks at either. The
  maximum age is the constant of the source, \<^verbatim>\<open>30*time.Second\<close>.
\<close>

theorem VerifyResponse_expired:
  assumes "30 * Second < now - Timestamp c"
  shows "VerifyResponse lib now c r pk
           = Inr (False, expired_reason lib (Time_Sub now (Timestamp c)))"
  using assms by (simp add: VerifyResponse_def Let_def Time_Sub_expired)

text \<open>Bob's valid answer, 31 seconds after the challenge was issued.\<close>

theorem VerifyResponse_expired_witness:
  "verify_core toy_lib (PublicKey bob) (marshalled toy_lib challenge0)
     (Signature (bob_response challenge0))
   \<and> VerifyResponse toy_lib 1700000031000000000 challenge0 (bob_response challenge0)
        (PublicKey bob) = Inr (False, ''challenge expired (age: 31000000000ns)'')"
proof -
  have age: "30 * Second < 1700000031000000000 - Timestamp challenge0"
    by (simp add: challenge0_def Second_def)
  have sub: "Time_Sub 1700000031000000000 (Timestamp challenge0) = 31000000000"
    by (simp add: Time_Sub_def Let_def minDuration_def maxDuration_def challenge0_def)
  have reason: "expired_reason toy_lib 31000000000 = ''challenge expired (age: 31000000000ns)''"
    by (simp add: expired_reason_def toy_lib_def Itoa_def digits.simps)
  have own: "verify_core toy_lib (PublicKey bob) (marshalled toy_lib challenge0)
      (Signature (bob_response challenge0))"
    by (simp add: toy_lib_def bob_def bob_response_def)
  show ?thesis
    using own sub reason
      VerifyResponse_expired [OF age, of toy_lib "bob_response challenge0" "PublicKey bob"]
    by simp
qed

text \<open>
  C9. \<^verbatim>\<open>VerifyResponse\<close> never reads the \<^verbatim>\<open>PeerID\<close> of the response: two responses
  with one signature get one result, the panic of a key of the wrong length included.
\<close>

theorem VerifyResponse_ignores_PeerID:
  "VerifyResponse lib now c \<lparr>PeerID = id1, Signature = sig\<rparr> pk
     = VerifyResponse lib now c \<lparr>PeerID = id2, Signature = sig\<rparr> pk"
  by (simp add: VerifyResponse_def Let_def)

lemma GenerateChallenge_result:
  "GenerateChallenge w =
     (\<lparr>Challenge = (case io_ReadFull (entropy w (reads w)) 32 of
                       Inl err \<Rightarrow> replicate 32 0 | Inr bs \<Rightarrow> bs),
       Timestamp = clock w (ticks w),
       Nonce = UnixNano (clock w (Suc (ticks w)))\<rparr>,
      w\<lparr>reads := Suc (reads w), ticks := Suc (Suc (ticks w))\<rparr>)"
  by (simp add: GenerateChallenge_def rand_ReadFull_def time_Now_def Let_def)

text \<open>
  C7, as the code decides it. \<^verbatim>\<open>GenerateChallenge\<close> keeps no counter: the \<^verbatim>\<open>Nonce\<close> of
  a challenge is the wall clock's reading in Unix nanoseconds, cut to an \<^verbatim>\<open>int64\<close>,
  the second of the two readings the call takes. Of two challenges issued one after the
  other, the later \<^verbatim>\<open>Nonce\<close> is greater exactly when that reading is.
\<close>

theorem GenerateChallenge_Nonce_is_clock_reading:
  "Nonce (fst (GenerateChallenge w)) = UnixNano (clock w (ticks w + 1))
   \<and> Nonce (fst (GenerateChallenge (snd (GenerateChallenge w)))) = UnixNano (clock w (ticks w + 3))
   \<and> (word_sless (Nonce (fst (GenerateChallenge w)))
                  (Nonce (fst (GenerateChallenge (snd (GenerateChallenge w)))))
        \<longleftrightarrow> word_sless (UnixNano (clock w (ticks w + 1))) (UnixNano (clock w (ticks w + 3))))"
  by (simp add: GenerateChallenge_result numeral_3_eq_3)

text \<open>
  The claim wants the later sequence value strictly greater. On a clock that returns
  one reading to both calls, as a coarse clock does to calls in quick succession, the
  two challenges carry the same \<^verbatim>\<open>Nonce\<close>.
\<close>

theorem GenerateChallenge_Nonce_repeats:
  "Nonce (fst (GenerateChallenge (snd (GenerateChallenge still_world))))
     = Nonce (fst (GenerateChallenge still_world))
   \<and> \<not> word_sless (Nonce (fst (GenerateChallenge still_world)))
          (Nonce (fst (GenerateChallenge (snd (GenerateChallenge still_world)))))"
  by (simp add: GenerateChallenge_result still_world_def)

lemma GenerateIdentity_error:
  "fst (GenerateIdentity lib w) = Inl err \<longleftrightarrow> fst (ed25519_GenerateKey lib w) = Inl err"
  by (auto simp: GenerateIdentity_def Let_def split: prod.splits sum.splits)

lemma GenerateIdentity_ID:
  "fst (GenerateIdentity lib w) = Inr ident \<Longrightarrow>
   PeerIdentity.ID ident = EncodeToString (PublicKey ident)"
  by (auto simp: GenerateIdentity_def Let_def split: prod.splits sum.splits)

lemma replicate_32:
  "replicate 32 x =
     [x, x, x, x, x, x, x, x, x, x, x, x, x, x, x, x,
      x, x, x, x, x, x, x, x, x, x, x, x, x, x, x, x]"
  by (simp add: numeral_eq_Suc)

text \<open>The test vectors of RFC 4648 for the texts \<^verbatim>\<open>f\<close>, \<^verbatim>\<open>fo\<close>, \<^verbatim>\<open>foo\<close> and \<^verbatim>\<open>foob\<close>.\<close>

lemma EncodeToString_rfc4648:
  "EncodeToString [0x66] = ''Zg==''"
  "EncodeToString [0x66, 0x6F] = ''Zm8=''"
  "EncodeToString [0x66, 0x6F, 0x6F] = ''Zm9v''"
  "EncodeToString [0x66, 0x6F, 0x6F, 0x62] = ''Zm9vYg==''"
  by (simp_all add: b64_char_def b64_table_def)

lemma EncodeToString_ones:
  "EncodeToString (replicate 32 1) = ''AQEBAQEBAQEBAQEBAQEBAQEBAQEBAQEBAQEBAQEBAQE=''"
  by (simp add: replicate_32 b64_char_def b64_table_def)

text \<open>
  C8. \<^verbatim>\<open>GenerateIdentity\<close> returns an error exactly when the read of the 32 seed bytes
  from the entropy source fails, and then that error. The \<^verbatim>\<open>ID\<close> of the identity it
  returns is the standard base64 text of its public key, so two identities it returns
  with one public key have one \<^verbatim>\<open>ID\<close>.
\<close>

theorem GenerateIdentity_error_and_ID:
  "(fst (GenerateIdentity lib w) = Inl err
      \<longleftrightarrow> io_ReadFull (entropy w (reads w)) 32 = Inl err)
   \<and> (fst (GenerateIdentity lib w) = Inr ident \<longrightarrow>
        PeerIdentity.ID ident = EncodeToString (PublicKey ident))
   \<and> (fst (GenerateIdentity lib w) = Inr ident \<and> fst (GenerateIdentity lib' w') = Inr ident'
        \<and> PublicKey ident = PublicKey ident' \<longrightarrow>
        PeerIdentity.ID ident = PeerIdentity.ID ident')"
proof (intro conjI impI)
  show "fst (GenerateIdentity lib w) = Inl err
      \<longleftrightarrow> io_ReadFull (entropy w (reads w)) 32 = Inl err"
    by (simp add: GenerateIdentity_error ed25519_GenerateKey_error)
next
  assume "fst (GenerateIdentity lib w) = Inr ident"
  then show "PeerIdentity.ID ident = EncodeToString (PublicKey ident)"
    by (rule GenerateIdentity_ID)
next
  assume h: "fst (GenerateIdentity lib w) = Inr ident \<and> fst (GenerateIdentity lib' w') = Inr ident'
    \<and> PublicKey ident = PublicKey ident'"
  from h have "PeerIdentity.ID ident = EncodeToString (PublicKey ident)"
    by (intro GenerateIdentity_ID [of lib w]) simp
  moreover from h have "PeerIdentity.ID ident' = EncodeToString (PublicKey ident')"
    by (intro GenerateIdentity_ID [of lib' w']) simp
  ultimately show "PeerIdentity.ID ident = PeerIdentity.ID ident'"
    using h by simp
qed

text \<open>A world whose entropy source fails, and one whose first read delivers 32 ones.\<close>

theorem GenerateIdentity_error_and_ID_witness:
  "io_ReadFull (entropy dry_world (reads dry_world)) 32
     = Inl (ReaderError ''entropy source unavailable'')
   \<and> fst (GenerateIdentity toy_lib dry_world) = Inl (ReaderError ''entropy source unavailable'')
   \<and> fst (GenerateIdentity toy_lib still_world) = Inr first_identity
   \<and> PeerIdentity.ID first_identity = EncodeToString (PublicKey first_identity)"
proof -
  have dry: "io_ReadFull (entropy dry_world (reads dry_world)) 32
      = Inl (ReaderError ''entropy source unavailable'')"
    by (simp add: io_ReadFull_def dry_world_def)
  have made: "fst (GenerateIdentity toy_lib still_world) = Inr first_identity"
    by (simp add: GenerateIdentity_def ed25519_GenerateKey_def rand_ReadFull_def io_ReadFull_def
        still_world_def toy_lib_def first_identity_def EncodeToString_ones)
  show ?thesis
    using dry made
      GenerateIdentity_error_and_ID [of toy_lib dry_world
        "ReaderError ''entropy source unavailable''" first_identity toy_lib still_world
        first_identity]
      GenerateIdentity_error_and_ID [of toy_lib still_world
        "ReaderError ''entropy source unavailable''" first_identity toy_lib still_world
        first_identity]
    by simp
qed

section \<open>The trust state machine: properties\<close>

lemma next_status_Authorized:
  "next_status ev s = Authorized \<Longrightarrow> s \<noteq> Authorized \<Longrightarrow>
   ev = OperatorApproves \<and> s = PendingInbound \<or> ev = PeerApprovesUs \<and> s = PendingOutbound"
  by (cases ev; cases s) simp_all

lemma status_of_apply_event_other:
  "q \<noteq> p \<Longrightarrow> status_of (apply_event store p key now ev) q = status_of store q"
  by (simp add: status_of_def apply_event_def split: option.splits)

lemma status_of_apply_event_same:
  "status_of (apply_event store p key now ev) p =
     (if ev = OperatorRemoves then Unknown
      else if ev = HandshakeFailed then status_of store p
      else if store p = None \<and> \<not> creates_record ev then Unknown
      else next_status ev (status_of store p))"
  by (simp add: status_of_def apply_event_def split: option.splits)

text \<open>
  C6, on the state machine of the specification. A handshake, successful or failed,
  leaves every record that is not \<open>Authorized\<close> not \<open>Authorized\<close>, and a failed one
  leaves the store as it was. An event that moves a record to \<open>Authorized\<close> is an
  approval of that very record: the operator's of a \<open>PendingInbound\<close> record, or the
  peer's of a \<open>PendingOutbound\<close> one.
\<close>

theorem handshake_never_authorizes:
  "(status_of (apply_event store p key now HandshakeSucceeded) q = Authorized
      \<longleftrightarrow> status_of store q = Authorized)
   \<and> apply_event store p key now HandshakeFailed = store
   \<and> (status_of (apply_event store p key now ev) q = Authorized
        \<and> status_of store q \<noteq> Authorized \<longrightarrow>
        q = p \<and> (ev = OperatorApproves \<and> status_of store p = PendingInbound
                  \<or> ev = PeerApprovesUs \<and> status_of store p = PendingOutbound))"
proof (intro conjI impI)
  show "status_of (apply_event store p key now HandshakeSucceeded) q = Authorized
      \<longleftrightarrow> status_of store q = Authorized"
  proof (cases "q = p")
    case True
    then show ?thesis
      by (cases "status_of store p")
        (simp_all add: status_of_apply_event_same creates_record_def)
  next
    case False
    then show ?thesis
      by (simp add: status_of_apply_event_other)
  qed
next
  show "apply_event store p key now HandshakeFailed = store"
    by (simp add: apply_event_def)
next
  assume h: "status_of (apply_event store p key now ev) q = Authorized
    \<and> status_of store q \<noteq> Authorized"
  then have same: "q = p"
    by (cases "q = p") (simp_all add: status_of_apply_event_other)
  with h have "next_status ev (status_of store p) = Authorized"
    by (auto simp: status_of_apply_event_same split: if_splits)
  with h same have "ev = OperatorApproves \<and> status_of store p = PendingInbound
      \<or> ev = PeerApprovesUs \<and> status_of store p = PendingOutbound"
    by (intro next_status_Authorized) simp_all
  with same show "q = p" and "ev = OperatorApproves \<and> status_of store p = PendingInbound
      \<or> ev = PeerApprovesUs \<and> status_of store p = PendingOutbound"
    by simp_all
qed

text \<open>
  A peer first seen inbound: its handshake succeeds and the record stays
  \<open>PendingInbound\<close>; the operator approves and the record is \<open>Authorized\<close>.
\<close>

theorem handshake_never_authorizes_witness:
  "status_of inbound_store ''peer-bob'' = PendingInbound
   \<and> status_of (apply_event inbound_store ''peer-bob'' (replicate 32 2) 5 HandshakeSucceeded)
        ''peer-bob'' = PendingInbound
   \<and> status_of (apply_event inbound_store ''peer-bob'' (replicate 32 2) 6 OperatorApproves)
        ''peer-bob'' = Authorized"
proof -
  have before: "status_of inbound_store ''peer-bob'' = PendingInbound"
    by (simp add: inbound_store_def apply_event_def creates_record_def status_of_def)
  have approved: "status_of
      (apply_event inbound_store ''peer-bob'' (replicate 32 2) 6 OperatorApproves)
      ''peer-bob'' = Authorized"
    by (simp add: inbound_store_def apply_event_def creates_record_def status_of_def)
  have "status_of (apply_event inbound_store ''peer-bob'' (replicate 32 2) 5 HandshakeSucceeded)
      ''peer-bob'' \<noteq> Authorized"
    using before
      handshake_never_authorizes [of inbound_store "''peer-bob''" "replicate 32 2" 5
        "''peer-bob''" OperatorApproves]
    by simp
  moreover have "status_of
      (apply_event inbound_store ''peer-bob'' (replicate 32 2) 5 HandshakeSucceeded)
      ''peer-bob'' = PendingInbound"
    by (simp add: inbound_store_def apply_event_def creates_record_def status_of_def)
  ultimately show ?thesis
    using before approved
      handshake_never_authorizes [of inbound_store "''peer-bob''" "replicate 32 2" 6
        "''peer-bob''" OperatorApproves]
    by simp
qed

text \<open>
  The claim names the operator's \<open>Approve\<close> as the only way to \<open>Authorized\<close>. The state
  machine has a second arrow there: a peer the operator added is \<open>PendingOutbound\<close>,
  and the peer's approval, no call of the operator, makes it \<open>Authorized\<close>.
\<close>

theorem peer_approval_authorizes:
  "status_of outbound_store ''peer-bob'' = PendingOutbound
   \<and> status_of (apply_event outbound_store ''peer-bob'' (replicate 32 2) 1 PeerApprovesUs)
        ''peer-bob'' = Authorized
   \<and> PeerApprovesUs \<noteq> OperatorApproves"
  by (simp add: outbound_store_def apply_event_def creates_record_def status_of_def)

section \<open>The signed bytes: properties\<close>

text \<open>The base64 text determines the bytes: four characters give back three bytes.\<close>

lemma b64_table_distinct: "distinct b64_table"
  by (simp add: b64_table_def)

lemma b64_table_length: "length b64_table = 64"
  by (simp add: b64_table_def)

lemma b64_char_inj: "b64_char i = b64_char j \<longleftrightarrow> i mod 64 = j mod 64"
  by (simp add: b64_char_def nth_eq_iff_index_eq b64_table_distinct b64_table_length)

lemma b64_char_not_pad: "b64_char i \<noteq> CHR ''=''"
proof -
  have "CHR ''='' \<notin> set b64_table"
    by (simp add: b64_table_def)
  moreover have "b64_char i \<in> set b64_table"
    by (simp add: b64_char_def b64_table_length)
  ultimately show ?thesis
    by metis
qed

lemma byte_lt: "unat (a :: byte) < 256"
  using unsigned_less [of a] by simp

lemma scale_16_4:
  fixes d m :: nat
  shows "(d * 16 + m) * 4 = m * 4 + d * 64"
  by simp

lemma scale_4_16:
  fixes d m :: nat
  shows "(d * 4 + m) * 16 = m * 16 + d * 64"
  by simp

lemma split64:
  fixes a b c :: nat
  shows "a * 65536 + b * 256 + c = c + (a * 1024 + b * 4) * 64"
  by simp

lemma split256:
  fixes a b c :: nat
  shows "a * 65536 + b * 256 + c = c + (a * 256 + b) * 256"
  by simp

lemma div256:
  fixes a b c :: nat
  assumes "c < 256"
  shows "(a * 65536 + b * 256 + c) div 256 = a * 256 + b"
proof -
  have "(a * 65536 + b * 256 + c) div 256 = (c + (a * 256 + b) * 256) div 256"
    by (simp only: split256)
  also have "\<dots> = (a * 256 + b) + c div 256"
    by (rule div_mult_self1) simp
  finally show ?thesis
    using assms by simp
qed

lemma sextet3:
  fixes a b c :: nat
  shows "(a * 65536 + b * 256 + c) mod 64 = c mod 64"
proof -
  have "(a * 65536 + b * 256 + c) mod 64 = (c + (a * 1024 + b * 4) * 64) mod 64"
    by (simp only: split64)
  also have "\<dots> = c mod 64"
    by (rule mod_mult_self1)
  finally show ?thesis .
qed

lemma div64:
  fixes a b c :: nat
  shows "(a * 65536 + b * 256 + c) div 64 = a * 1024 + b * 4 + c div 64"
proof -
  have "(a * 65536 + b * 256 + c) div 64 = (c + (a * 1024 + b * 4) * 64) div 64"
    by (simp only: split64)
  also have "\<dots> = (a * 1024 + b * 4) + c div 64"
    by (rule div_mult_self1) simp
  finally show ?thesis .
qed

lemma sextet2:
  fixes a b c :: nat
  assumes "c < 256"
  shows "(a * 65536 + b * 256 + c) div 64 mod 64 = (b mod 16) * 4 + c div 64"
proof -
  have "(b div 16 * 16 + b mod 16) * 4 = (b mod 16) * 4 + (b div 16) * 64"
    by (rule scale_16_4)
  then have "b * 4 = (b mod 16) * 4 + (b div 16) * 64"
    by (simp only: div_mult_mod_eq)
  then have "a * 1024 + b * 4 + c div 64 = (b mod 16) * 4 + c div 64 + (a * 16 + b div 16) * 64"
    by simp
  then have "(a * 1024 + b * 4 + c div 64) mod 64 = ((b mod 16) * 4 + c div 64) mod 64"
    by (simp only: mod_mult_self1)
  moreover have "(b mod 16) * 4 + c div 64 < 64"
    using assms by simp
  ultimately show ?thesis
    by (simp only: div64 mod_less)
qed

lemma div4096:
  fixes a b c :: nat
  assumes "c < 256"
  shows "(a * 65536 + b * 256 + c) div 4096 = a * 16 + b div 16"
proof -
  have "(a * 65536 + b * 256 + c) div 4096 = (a * 65536 + b * 256 + c) div 256 div 16"
    by (simp add: div_mult2_eq [symmetric])
  also have "\<dots> = (a * 256 + b) div 16"
    by (simp only: div256 [OF assms])
  also have "\<dots> = (b + (a * 16) * 16) div 16"
    by simp
  also have "\<dots> = a * 16 + b div 16"
    by (rule div_mult_self1) simp
  finally show ?thesis .
qed

lemma sextet1:
  fixes a b c :: nat
  assumes "b < 256" "c < 256"
  shows "(a * 65536 + b * 256 + c) div 4096 mod 64 = (a mod 4) * 16 + b div 16"
proof -
  have "(a div 4 * 4 + a mod 4) * 16 = (a mod 4) * 16 + (a div 4) * 64"
    by (rule scale_4_16)
  then have "a * 16 = (a mod 4) * 16 + (a div 4) * 64"
    by (simp only: div_mult_mod_eq)
  then have "a * 16 + b div 16 = (a mod 4) * 16 + b div 16 + (a div 4) * 64"
    by simp
  then have "(a * 16 + b div 16) mod 64 = ((a mod 4) * 16 + b div 16) mod 64"
    by (simp only: mod_mult_self1)
  moreover have "(a mod 4) * 16 + b div 16 < 64"
    using assms by simp
  ultimately show ?thesis
    by (simp only: div4096 [OF assms(2)] mod_less)
qed

lemma sextet0:
  fixes a b c :: nat
  assumes "a < 256" "b < 256" "c < 256"
  shows "(a * 65536 + b * 256 + c) div 262144 mod 64 = a div 4"
proof -
  have "(a * 65536 + b * 256 + c) div 262144 = (a * 65536 + b * 256 + c) div 4096 div 64"
    by (simp add: div_mult2_eq [symmetric])
  also have "\<dots> = (a * 16 + b div 16) div 64"
    by (simp only: div4096 [OF assms(3)])
  also have "\<dots> = a div 4"
    using assms(2) by simp
  finally show ?thesis
    using assms(1) by simp
qed

lemma two_digits_16:
  fixes x y x' y' :: nat
  assumes "x * 16 + y = x' * 16 + y'" "y < 16" "y' < 16"
  shows "x = x' \<and> y = y'"
proof -
  have "(x * 16 + y) div 16 = x" "(x' * 16 + y') div 16 = x'"
    using assms(2,3) by simp_all
  with assms(1) have "x = x'"
    by simp
  with assms(1) show ?thesis
    by simp
qed

lemma two_digits_4:
  fixes x y x' y' :: nat
  assumes "x * 4 + y = x' * 4 + y'" "y < 4" "y' < 4"
  shows "x = x' \<and> y = y'"
proof -
  have "(x * 4 + y) div 4 = x" "(x' * 4 + y') div 4 = x'"
    using assms(2,3) by simp_all
  with assms(1) have "x = x'"
    by simp
  with assms(1) show ?thesis
    by simp
qed

lemma div_mod_eqI:
  fixes a a' k :: nat
  assumes "a div k = a' div k" "a mod k = a' mod k"
  shows "a = a'"
  by (metis assms div_mult_mod_eq)

lemma group3:
  fixes a b c a' b' c' :: nat
  assumes "b < 256" "c < 256" "b' < 256" "c' < 256"
    and s0: "a div 4 = a' div 4"
    and s1: "(a mod 4) * 16 + b div 16 = (a' mod 4) * 16 + b' div 16"
    and s2: "(b mod 16) * 4 + c div 64 = (b' mod 16) * 4 + c' div 64"
    and s3: "c mod 64 = c' mod 64"
  shows "a = a' \<and> b = b' \<and> c = c'"
proof -
  have b16: "b div 16 < 16" "b' div 16 < 16" and c4: "c div 64 < 4" "c' div 64 < 4"
    using assms(1-4) by simp_all
  have hi: "a mod 4 = a' mod 4 \<and> b div 16 = b' div 16"
    using s1 b16 by (rule two_digits_16)
  have lo: "b mod 16 = b' mod 16 \<and> c div 64 = c' div 64"
    using s2 c4 by (rule two_digits_4)
  have "a = a'"
    using s0 conjunct1 [OF hi] by (rule div_mod_eqI)
  moreover have "b = b'"
    using conjunct2 [OF hi] conjunct1 [OF lo] by (rule div_mod_eqI)
  moreover have "c = c'"
    using conjunct2 [OF lo] s3 by (rule div_mod_eqI)
  ultimately show ?thesis
    by simp
qed

lemma quantum_inj:
  fixes a b c a' b' c' :: nat
  assumes bounds: "a < 256" "b < 256" "c < 256" "a' < 256" "b' < 256" "c' < 256"
    and e0: "(a * 65536 + b * 256 + c) div 262144 mod 64
             = (a' * 65536 + b' * 256 + c') div 262144 mod 64"
    and e1: "(a * 65536 + b * 256 + c) div 4096 mod 64
             = (a' * 65536 + b' * 256 + c') div 4096 mod 64"
    and e2: "(a * 65536 + b * 256 + c) div 64 mod 64
             = (a' * 65536 + b' * 256 + c') div 64 mod 64"
    and e3: "(a * 65536 + b * 256 + c) mod 64 = (a' * 65536 + b' * 256 + c') mod 64"
  shows "a = a' \<and> b = b' \<and> c = c'"
proof (rule group3)
  show "b < 256" "c < 256" "b' < 256" "c' < 256"
    by (rule bounds)+
  show "a div 4 = a' div 4"
    using e0 by (simp only: sextet0 [OF bounds(1-3)] sextet0 [OF bounds(4-6)])
  show "a mod 4 * 16 + b div 16 = a' mod 4 * 16 + b' div 16"
    using e1 by (simp only: sextet1 [OF bounds(2,3)] sextet1 [OF bounds(5,6)])
  show "b mod 16 * 4 + c div 64 = b' mod 16 * 4 + c' div 64"
    using e2 by (simp only: sextet2 [OF bounds(3)] sextet2 [OF bounds(6)])
  show "c mod 64 = c' mod 64"
    using e3 by (simp only: sextet3)
qed

lemma EncodeToString_Nil: "EncodeToString ys = [] \<longleftrightarrow> ys = []"
  by (cases ys rule: EncodeToString.cases) (simp_all add: Let_def)

lemma EncodeToString_inj: "EncodeToString xs = EncodeToString ys \<Longrightarrow> xs = ys"
proof (induction xs arbitrary: ys rule: EncodeToString.induct)
  case 1
  then have "EncodeToString ys = []"
    by simp
  then show ?case
    by (simp add: EncodeToString_Nil)
next
  case (2 a)
  show ?case
  proof (cases ys rule: EncodeToString.cases)
    case 1
    with 2 show ?thesis
      by (simp add: Let_def)
  next
    case (2 a')
    with "2.prems" have "unat a = unat a' \<and> (0::nat) = 0 \<and> (0::nat) = 0"
      by (intro quantum_inj) (simp_all add: Let_def b64_char_inj byte_lt)
    with 2 show ?thesis
      by (simp add: word_unat_eq_iff)
  next
    case (3 a' b')
    with "2.prems" show ?thesis
      by (simp add: Let_def b64_char_not_pad [symmetric])
  next
    case (4 a' b' c' src')
    with "2.prems" show ?thesis
      by (simp add: Let_def b64_char_not_pad [symmetric])
  qed
next
  case (3 a b)
  show ?case
  proof (cases ys rule: EncodeToString.cases)
    case 1
    with 3 show ?thesis
      by (simp add: Let_def)
  next
    case (2 a')
    with "3.prems" show ?thesis
      by (simp add: Let_def b64_char_not_pad)
  next
    case (3 a' b')
    with "3.prems" have "unat a = unat a' \<and> unat b = unat b' \<and> (0::nat) = 0"
      by (intro quantum_inj) (simp_all add: Let_def b64_char_inj byte_lt)
    with 3 show ?thesis
      by (simp add: word_unat_eq_iff)
  next
    case (4 a' b' c' src')
    with "3.prems" show ?thesis
      by (simp add: Let_def b64_char_not_pad [symmetric])
  qed
next
  case (4 a b c src)
  show ?case
  proof (cases ys rule: EncodeToString.cases)
    case 1
    with "4.prems" show ?thesis
      by (simp add: Let_def)
  next
    case (2 a')
    with "4.prems" show ?thesis
      by (simp add: Let_def b64_char_not_pad)
  next
    case (3 a' b')
    with "4.prems" show ?thesis
      by (simp add: Let_def b64_char_not_pad)
  next
    case ys: (4 a' b' c' src')
    with "4.prems" have rest: "EncodeToString src = EncodeToString src'"
      by (simp add: Let_def)
    from ys "4.prems" have "unat a = unat a' \<and> unat b = unat b' \<and> unat c = unat c'"
      by (intro quantum_inj) (simp_all add: Let_def b64_char_inj byte_lt)
    moreover from rest have "src = src'"
      using "4.IH" by blast
    ultimately show ?thesis
      using ys by (simp add: word_unat_eq_iff)
  qed
qed

lemma byte_of_char_inj:
  "word_of_nat (of_char c) = (word_of_nat (of_char d) :: byte) \<Longrightarrow> c = d"
proof -
  have unat_char: "unat (word_of_nat (of_char x) :: byte) = of_char x" for x
    by (simp add: unat_of_nat)
  assume "word_of_nat (of_char c) = (word_of_nat (of_char d) :: byte)"
  then have "unat (word_of_nat (of_char c) :: byte) = unat (word_of_nat (of_char d) :: byte)"
    by simp
  then have "(of_char c :: nat) = of_char d"
    by (simp only: unat_char)
  then show "c = d"
    by simp
qed

lemma bytes_of_string_inj: "bytes_of_string s = bytes_of_string t \<Longrightarrow> s = t"
  unfolding bytes_of_string_def
  by (rule map_injective) (auto intro: injI byte_of_char_inj)

lemma marshalled_failed:
  assumes "253402300800 \<le> Timestamp c div 1000000000"
  shows "marshalled lib c = []"
  using assms by (simp add: marshalled_def json_Marshal_def Time_MarshalJSON_def Let_def)

lemma marshalled_Challenge_inj:
  assumes "Time_MarshalJSON lib (Timestamp c) = Inr ts"
    and "marshalled lib (c\<lparr>Challenge := n\<rparr>) = marshalled lib (c\<lparr>Challenge := n'\<rparr>)"
  shows "n = n'"
proof -
  from assms(2) have "EncodeToString n = EncodeToString n'"
    by (auto simp: marshalled_def json_Marshal_def assms(1) dest!: bytes_of_string_inj)
  then show ?thesis
    by (rule EncodeToString_inj)
qed

lemma marshalled_differs:
  assumes "Time_MarshalJSON lib (Timestamp c) = Inr ts" and "n' \<noteq> Challenge c"
  shows "marshalled lib (c\<lparr>Challenge := n'\<rparr>) \<noteq> marshalled lib c"
proof
  assume "marshalled lib (c\<lparr>Challenge := n'\<rparr>) = marshalled lib c"
  then have "marshalled lib (c\<lparr>Challenge := n'\<rparr>) = marshalled lib (c\<lparr>Challenge := Challenge c\<rparr>)"
    by simp
  with assms(1) have "n' = Challenge c"
    by (rule marshalled_Challenge_inj)
  with assms(2) show False
    by simp
qed

lemma flip_bit_at_changes:
  assumes "i < length bs" and "k < 8"
  shows "flip_bit_at bs i k \<noteq> bs"
proof
  assume "flip_bit_at bs i k = bs"
  then have "flip_bit_at bs i k ! i = bs ! i"
    by simp
  with assms(1) have "bs ! i XOR push_bit k 1 = bs ! i"
    by (simp add: flip_bit_at_def)
  then have "push_bit k 1 = (0 :: byte)"
    by (metis bit.xor_left_self xor.right_neutral)
  with assms(2) show False
    by simp
qed

text \<open>
  Where the timestamp of the challenge is marshalled, the signed bytes cover the nonce:
  against the challenge with another nonce, \<^verbatim>\<open>VerifyResponse\<close> hands \<^verbatim>\<open>ed25519.Verify\<close>
  bytes other than the ones the response signs, and returns what it answers.
\<close>

lemma VerifyResponse_changed_nonce:
  assumes "ed25519_correct lib"
    and "fst (ed25519_GenerateKey lib w) = Inr (PublicKey ident, PrivateKey ident)"
    and "Time_MarshalJSON lib (Timestamp c) = Inr ts"
    and "now - Timestamp c \<le> 30 * Second"
    and "n' \<noteq> Challenge c"
  shows "\<exists>response.
           RespondToChallenge lib ident c = Inr response
           \<and> Signature response = sign_core lib (PrivateKey ident) (marshalled lib c)
           \<and> marshalled lib (c\<lparr>Challenge := n'\<rparr>) \<noteq> marshalled lib c
           \<and> VerifyResponse lib now (c\<lparr>Challenge := n'\<rparr>) response (PublicKey ident)
               = Inr (if verify_core lib (PublicKey ident) (marshalled lib (c\<lparr>Challenge := n'\<rparr>))
                           (Signature response)
                      then (True, ''authentication successful'')
                      else (False, ''invalid signature''))"
proof -
  let ?response = "\<lparr>PeerID = PeerIdentity.ID ident,
                     Signature = sign_core lib (PrivateKey ident) (marshalled lib c)\<rparr>"
  have len: "length (PublicKey ident) = 32"
    using assms(1,2) by (rule generated_key_lengths(2))
  have "RespondToChallenge lib ident c = Inr ?response"
    using assms(1,2) by (rule RespondToChallenge_generated)
  moreover have "marshalled lib (c\<lparr>Challenge := n'\<rparr>) \<noteq> marshalled lib c"
    using assms(3,5) by (rule marshalled_differs)
  moreover have "VerifyResponse lib now (c\<lparr>Challenge := n'\<rparr>) ?response (PublicKey ident)
      = Inr (if verify_core lib (PublicKey ident) (marshalled lib (c\<lparr>Challenge := n'\<rparr>))
                  (Signature ?response)
             then (True, ''authentication successful'')
             else (False, ''invalid signature''))"
    using assms(4) by (simp add: VerifyResponse_cases [OF len])
  ultimately show ?thesis
    by (intro exI [of _ ?response]) simp
qed

text \<open>In particular with one bit of the nonce flipped.\<close>

lemma VerifyResponse_flipped_nonce:
  assumes "ed25519_correct lib"
    and "fst (ed25519_GenerateKey lib w) = Inr (PublicKey ident, PrivateKey ident)"
    and "Time_MarshalJSON lib (Timestamp c) = Inr ts"
    and "now - Timestamp c \<le> 30 * Second"
    and "i < length (Challenge c)" and "k < 8"
  shows "\<exists>response.
           RespondToChallenge lib ident c = Inr response
           \<and> Signature response = sign_core lib (PrivateKey ident) (marshalled lib c)
           \<and> marshalled lib (c\<lparr>Challenge := flip_bit_at (Challenge c) i k\<rparr>) \<noteq> marshalled lib c
           \<and> VerifyResponse lib now (c\<lparr>Challenge := flip_bit_at (Challenge c) i k\<rparr>) response
                (PublicKey ident)
               = Inr (if verify_core lib (PublicKey ident)
                           (marshalled lib (c\<lparr>Challenge := flip_bit_at (Challenge c) i k\<rparr>))
                           (Signature response)
                      then (True, ''authentication successful'')
                      else (False, ''invalid signature''))"
  using assms(1-4) flip_bit_at_changes [OF assms(5,6)]
  by (rule VerifyResponse_changed_nonce)

text \<open>
  C4, where the code departs from it. Both \<^verbatim>\<open>RespondToChallenge\<close> and \<^verbatim>\<open>VerifyResponse\<close>
  drop the error of \<^verbatim>\<open>json.Marshal\<close>. For a challenge whose timestamp lies in the year
  10000 or later the marshalling fails, both sign and verify the empty message, and the
  response to the challenge verifies against the challenge with any bit of its nonce
  flipped: \<^verbatim>\<open>VerifyResponse\<close> returns \<^verbatim>\<open>true\<close> and \<^verbatim>\<open>authentication successful\<close>. Such
  a challenge is not expired at any earlier reading of the clock, its age being negative.
\<close>

theorem VerifyResponse_accepts_flipped_nonce_unmarshalled:
  assumes "ed25519_correct lib"
    and "fst (ed25519_GenerateKey lib w) = Inr (PublicKey ident, PrivateKey ident)"
    and "253402300800 \<le> Timestamp c div 1000000000"
    and "now - Timestamp c \<le> 30 * Second"
  shows "\<exists>response. RespondToChallenge lib ident c = Inr response
           \<and> VerifyResponse lib now (c\<lparr>Challenge := flip_bit_at (Challenge c) i k\<rparr>) response
               (PublicKey ident) = Inr (True, ''authentication successful'')"
proof -
  let ?response = "\<lparr>PeerID = PeerIdentity.ID ident,
                     Signature = sign_core lib (PrivateKey ident) (marshalled lib c)\<rparr>"
  have empty: "marshalled lib c = []"
    "marshalled lib (c\<lparr>Challenge := flip_bit_at (Challenge c) i k\<rparr>) = []"
    using assms(3) by (simp_all add: marshalled_failed)
  have "RespondToChallenge lib ident c = Inr ?response"
    using assms(1,2) by (rule RespondToChallenge_generated)
  moreover have "VerifyResponse lib now (c\<lparr>Challenge := flip_bit_at (Challenge c) i k\<rparr>)
      ?response (PublicKey ident) = Inr (True, ''authentication successful'')"
    using assms(4) generated_key_verifies [OF assms(1,2), of "[]"]
    by (simp add: VerifyResponse_cases [OF generated_key_lengths(2) [OF assms(1,2)]] empty)
  ultimately show ?thesis
    by blast
qed

text \<open>
  Bob answers the challenge stamped 10000-01-01; the first nonce byte is then changed
  from 7 to 6; his answer is verified against the changed challenge in the year 2023.
\<close>

theorem VerifyResponse_accepts_flipped_nonce_unmarshalled_witness:
  "Challenge far_challenge_flipped \<noteq> Challenge far_challenge
   \<and> RespondToChallenge toy_lib bob far_challenge = Inr (bob_response far_challenge)
   \<and> VerifyResponse toy_lib 1700000005000000000 far_challenge_flipped
        (bob_response far_challenge) (PublicKey bob)
      = Inr (True, ''authentication successful'')"
proof -
  have changed: "Challenge far_challenge_flipped \<noteq> Challenge far_challenge"
    using flip_bit_at_changes [of 0 "Challenge far_challenge" 0]
    by (simp add: far_challenge_flipped_def far_challenge_def)
  have year: "253402300800 \<le> Timestamp far_challenge div 1000000000"
    by (simp add: far_challenge_def)
  have age: "1700000005000000000 - Timestamp far_challenge \<le> 30 * Second"
    by (simp add: far_challenge_def Second_def)
  from VerifyResponse_accepts_flipped_nonce_unmarshalled
    [OF toy_lib_correct bob_generated year age, of 0 0]
  show ?thesis
    using changed by (simp add: bob_responds far_challenge_flipped_def)
qed

text \<open>
  The same hole in the program's own run. In scenario 4 the copy of the struct shares
  the nonce's array with \<^verbatim>\<open>challenge\<close>, so the write through the copy changes the
  challenge the verifier holds; \<^verbatim>\<open>VerifyResponse\<close> marshals the changed fields anew and
  accepts the answer to the modified challenge, where the program announces that
  tampering with challenges is detected.
\<close>

lemma scenario4_accepts:
  assumes "ed25519_correct lib"
    and "fst (ed25519_GenerateKey lib w) = Inr (PublicKey bob', PrivateKey bob')"
    and "now - TimestampField challenge \<le> 30 * Second"
    and "m (ChallengeArray challenge) \<noteq> []"
  shows "scenario4 lib now m challenge bob' = Inr (True, ''authentication successful'')"
proof -
  from assms(4) obtain m' where m': "xor_at m (ChallengeArray challenge) 0 0xFF = Inr m'"
    by (simp add: xor_at_def)
  let ?c = "contents m' challenge"
  have fresh: "now - Timestamp ?c \<le> 30 * Second"
    using assms(3) by (simp add: contents_def)
  have "RespondToChallenge lib bob' ?c
      = Inr \<lparr>PeerID = PeerIdentity.ID bob',
             Signature = sign_core lib (PrivateKey bob') (marshalled lib ?c)\<rparr>"
    using assms(1,2) by (rule RespondToChallenge_generated)
  moreover have "VerifyResponse lib now ?c
      \<lparr>PeerID = PeerIdentity.ID bob',
       Signature = sign_core lib (PrivateKey bob') (marshalled lib ?c)\<rparr> (PublicKey bob')
      = Inr (True, ''authentication successful'')"
    using fresh generated_key_verifies [OF assms(1,2)]
    by (simp add: VerifyResponse_cases [OF generated_key_lengths(2) [OF assms(1,2)]])
  ultimately show ?thesis
    by (simp add: scenario4_def Let_def m')
qed

lemma scenario4_of_main:
  "scenario4 toy_lib 1700000005000000000 memory0 challenge_struct0 bob
     = Inr (True, ''authentication successful'')"
proof -
  have "1700000005000000000 - TimestampField challenge_struct0 \<le> 30 * Second"
    by (simp add: challenge_struct0_def Second_def)
  moreover have "memory0 (ChallengeArray challenge_struct0) \<noteq> []"
    by (simp add: memory0_def challenge_struct0_def replicate_32)
  ultimately show ?thesis
    using toy_lib_correct bob_generated by (rule scenario4_accepts [rotated 2])
qed

text \<open>
  The bytes the verifier issued are not the bytes it checks: where the timestamp is
  marshalled, the challenge as it was before the write and the challenge after it
  marshal to different bytes, and the answer signs the later ones.
\<close>

lemma scenario4_bytes_changed:
  assumes "Time_MarshalJSON lib (TimestampField challenge) = Inr ts"
    and "xor_at m (ChallengeArray challenge) 0 0xFF = Inr m'"
  shows "marshalled lib (contents m' challenge) \<noteq> marshalled lib (contents m challenge)"
proof -
  let ?a = "ChallengeArray challenge"
  from assms(2) have range: "0 < length (m ?a)"
    and m': "m' = m(?a := (m ?a)[0 := (m ?a) ! 0 XOR 0xFF])"
    by (auto simp: xor_at_def split: if_splits)
  have "(m ?a) ! 0 XOR 0xFF \<noteq> (m ?a) ! 0"
  proof
    assume "(m ?a) ! 0 XOR 0xFF = (m ?a) ! 0"
    then have "(0xFF :: byte) = 0"
      by (metis bit.xor_left_self xor.right_neutral)
    then show False
      by simp
  qed
  with range have "(m ?a)[0 := (m ?a) ! 0 XOR 0xFF] ! 0 \<noteq> (m ?a) ! 0"
    by simp
  then have "(m ?a)[0 := (m ?a) ! 0 XOR 0xFF] \<noteq> m ?a"
    by metis
  then have changed: "m' ?a \<noteq> Challenge (contents m challenge)"
    by (simp add: m' contents_def)
  have same: "contents m' challenge = (contents m challenge)\<lparr>Challenge := m' ?a\<rparr>"
    by (simp add: contents_def)
  have "Time_MarshalJSON lib (Timestamp (contents m challenge)) = Inr ts"
    using assms(1) by (simp add: contents_def)
  then show ?thesis
    unfolding same using changed by (rule marshalled_differs)
qed

end
